theory Spec2Isabelle
  imports Main "HOL-Library.Word" "HOL-Library.Sublist"
begin

section \<open>Values of the Go program\<close>

type_synonym byte = "8 word"
type_synonym path = string

text \<open>
  Go \<^verbatim>\<open>error\<close> values. \<open>New\<close> is \<^verbatim>\<open>errors.New\<close> (and \<^verbatim>\<open>errors.Errorf\<close> with the message
  already formatted), \<open>Wrap e m\<close> is \<^verbatim>\<open>errors.Wrap(e, m)\<close> on a non-nil \<open>e\<close>, \<open>EOF\<close> is
  \<^verbatim>\<open>io.EOF\<close>, \<open>Canceled\<close> and \<open>DeadlineExceeded\<close> are the two values of \<^verbatim>\<open>ctx.Err()\<close>,
  \<open>ExitError n\<close> is an \<^verbatim>\<open>*exec.ExitError\<close> with exit status \<open>n\<close>, and \<open>Sys n\<close> stands for any
  other error that the operating system, the network or a library hands back.
  A nil error is \<open>None :: err option\<close>.
\<close>

datatype err =
    New string
  | Wrap err string
  | EOF
  | Canceled
  | DeadlineExceeded
  | ErrShortWrite
  | ErrClosed
  | ErrInvalid
  | ErrNotExist
  | ErrExist
  | ExitError int
  | Sys nat

text \<open>\<^verbatim>\<open>errors.Wrap\<close> and \<^verbatim>\<open>errors.Wrapf\<close> return nil when the wrapped error is nil.\<close>

fun errors_Wrap :: "err option \<Rightarrow> string \<Rightarrow> err option" where
  "errors_Wrap None msg = None"
| "errors_Wrap (Some e) msg = Some (Wrap e msg)"

text \<open>A call either returns or panics (a nil dereference ends the goroutine).\<close>

datatype 'a outcome = Panic | Return 'a

record fileInfo =
  URL :: string
  SHA1 :: string

record Wikidump =
  file2Info :: "string \<rightharpoonup> fileInfo list"
  tmpDir :: string
  date :: nat

section \<open>The world outside the program\<close>

text \<open>
  Every call that leaves the program is recorded in the \<open>trace\<close>. The file system is the
  map \<open>fs\<close> from paths to contents, \<open>files\<close> is the table of \<^verbatim>\<open>*os.File\<close> objects (their
  name and whether they have been closed) and \<open>nfiles\<close> the next free object.
  What the environment decides is read from oracles indexed by \<open>tick\<close>, the number of
  external calls made so far: \<open>faults\<close> says whether a call fails and with which error,
  \<open>shorts\<close> how many bytes a failing write still delivers, \<open>rand\<close> the random part of a
  temporary name, \<open>network\<close> the body a GET is answered with (its chunks and the error
  that ends it, \<open>EOF\<close> for a complete body), \<open>elapse\<close> how long a call takes and \<open>coin\<close>
  the choice of \<^verbatim>\<open>select\<close> between two ready channels. \<open>entries7z\<close> is the listing that
  the external 7z tool gives for an archive with the given bytes. The theorems hold for
  every value of these oracles.
\<close>

datatype event =
    EvTempFile string string
  | EvOpen path
  | EvClose nat
  | EvWrite nat
  | EvRead nat
  | EvRemove path
  | EvNewRequest string
  | EvGet string
  | EvBodyClose
  | EvAfter int
  | EvPrint string "err option"
  | EvGzipHeader
  | EvGzipClose
  | EvList7z path
  | EvExtract7z path string

record body =
  chunks :: "byte list list"
  final :: err

record world =
  fs :: "path \<rightharpoonup> byte list"
  files :: "nat \<rightharpoonup> path \<times> bool"
  nfiles :: nat
  tick :: nat
  clock :: int
  trace :: "event list"
  faults :: "nat \<Rightarrow> err option"
  shorts :: "nat \<Rightarrow> nat"
  rand :: "nat \<Rightarrow> string"
  network :: "nat \<Rightarrow> string \<Rightarrow> body"
  elapse :: "nat \<Rightarrow> nat"
  coin :: "nat \<Rightarrow> bool"
  entries7z :: "byte list \<Rightarrow> string list"

text \<open>One external call: it is traced, takes its time, and the oracle says whether it fails.\<close>

definition sys :: "event \<Rightarrow> world \<Rightarrow> err option \<times> world" where
  "sys ev w =
     (faults w (tick w),
      w\<lparr>tick := tick w + 1, clock := clock w + int (elapse w (tick w)), trace := trace w @ [ev]\<rparr>)"

text \<open>
  \<^verbatim>\<open>ioutil.TempFile(dir, prefix)\<close>: a new, empty file whose name is \<open>prefix\<close> followed by a
  random string, opened for writing. The library retries on a name that exists; the
  oracle \<open>rand\<close> stands for the name of the last try, so a name that exists is the
  library's error after its last try.
\<close>

definition ioutil_TempFile :: "string \<Rightarrow> string \<Rightarrow> world \<Rightarrow> (err + nat) \<times> world" where
  "ioutil_TempFile dir pfx w =
     (let name = dir @ ''/'' @ pfx @ rand w (tick w);
          (f, w1) = sys (EvTempFile dir pfx) w
      in case f of
           Some e \<Rightarrow> (Inl e, w1)
         | None \<Rightarrow>
             if fs w1 name \<noteq> None then (Inl ErrExist, w1)
             else (Inr (nfiles w1),
                   w1\<lparr>fs := (fs w1)(name \<mapsto> []),
                      files := (files w1)(nfiles w1 \<mapsto> (name, False)),
                      nfiles := nfiles w1 + 1\<rparr>))"

text \<open>\<^verbatim>\<open>os.Open(name)\<close>: on failure the returned \<^verbatim>\<open>*os.File\<close> is nil (\<open>Inl\<close>).\<close>

definition os_Open :: "path \<Rightarrow> world \<Rightarrow> (err + nat) \<times> world" where
  "os_Open name w =
     (let (f, w1) = sys (EvOpen name) w
      in case f of
           Some e \<Rightarrow> (Inl e, w1)
         | None \<Rightarrow>
             if fs w1 name = None then (Inl ErrNotExist, w1)
             else (Inr (nfiles w1),
                   w1\<lparr>files := (files w1)(nfiles w1 \<mapsto> (name, False)),
                      nfiles := nfiles w1 + 1\<rparr>))"

text \<open>\<^verbatim>\<open>f.Name()\<close> of a non-nil file: the name it was opened with, also after Close.\<close>

definition File_Name :: "nat \<Rightarrow> world \<Rightarrow> path" where
  "File_Name h w = (case files w h of Some (name, closed) \<Rightarrow> name | None \<Rightarrow> [])"

text \<open>
  \<^verbatim>\<open>f.Close()\<close>: a second Close answers \<open>ErrClosed\<close>; after a Close that the system
  reports as failed the file is closed all the same.
\<close>

definition File_Close :: "nat \<Rightarrow> world \<Rightarrow> err option \<times> world" where
  "File_Close h w =
     (let (f, w1) = sys (EvClose h) w
      in case files w1 h of
           None \<Rightarrow> (Some ErrInvalid, w1)
         | Some (name, closed) \<Rightarrow>
             if closed then (Some ErrClosed, w1)
             else (f, w1\<lparr>files := (files w1)(h \<mapsto> (name, True))\<rparr>))"

definition is_closed :: "world \<Rightarrow> nat \<Rightarrow> bool" where
  "is_closed w h = (case files w h of Some (name, closed) \<Rightarrow> closed | None \<Rightarrow> False)"

definition append_file :: "path \<Rightarrow> byte list \<Rightarrow> world \<Rightarrow> world" where
  "append_file name bs w =
     (case fs w name of
        None \<Rightarrow> w
      | Some old \<Rightarrow> w\<lparr>fs := (fs w)(name \<mapsto> old @ bs)\<rparr>)"

text \<open>
  \<^verbatim>\<open>f.Write(b)\<close> returns the number of bytes written and a non-nil error whenever that
  number is not \<open>len(b)\<close>.
\<close>

definition File_Write :: "nat \<Rightarrow> byte list \<Rightarrow> world \<Rightarrow> (nat \<times> err option) \<times> world" where
  "File_Write h bs w =
     (let (f, w1) = sys (EvWrite h) w
      in case files w1 h of
           None \<Rightarrow> ((0, Some ErrInvalid), w1)
         | Some (name, closed) \<Rightarrow>
             if closed then ((0, Some ErrClosed), w1)
             else (case f of
                     None \<Rightarrow> ((length bs, None), append_file name bs w1)
                   | Some e \<Rightarrow>
                       (let k = min (shorts w (tick w)) (length bs)
                        in ((k, Some e), append_file name (take k bs) w1))))"

definition os_Remove :: "path \<Rightarrow> world \<Rightarrow> err option \<times> world" where
  "os_Remove name w =
     (let (f, w1) = sys (EvRemove name) w
      in case f of
           Some e \<Rightarrow> (Some e, w1)
         | None \<Rightarrow>
             if fs w1 name = None then (Some ErrNotExist, w1)
             else (None, w1\<lparr>fs := (fs w1)(name := None)\<rparr>))"

definition fmt_Print :: "string \<Rightarrow> err option \<Rightarrow> world \<Rightarrow> world" where
  "fmt_Print msg e w = w\<lparr>trace := trace w @ [EvPrint msg e]\<rparr>"

section \<open>Library functions\<close>

text \<open>\<^verbatim>\<open>fmt.Sprintf("%x", b)\<close> on a byte slice: two lower-case hexadecimal digits per byte.\<close>

definition hexdigit :: "nat \<Rightarrow> char" where
  "hexdigit n = ''0123456789abcdef'' ! n"

definition hex :: "byte list \<Rightarrow> string" where
  "hex bs = concat (map (\<lambda>b. [hexdigit (unat b div 16), hexdigit (unat b mod 16)]) bs)"

text \<open>\<^verbatim>\<open>strings.HasSuffix\<close>: \<^verbatim>\<open>len(s) >= len(suffix) && s[len(s)-len(suffix):] == suffix\<close>.\<close>

definition HasSuffix :: "string \<Rightarrow> string \<Rightarrow> bool" where
  "HasSuffix s suf = (length s \<ge> length suf \<and> drop (length s - length suf) s = suf)"

text \<open>
  \<^verbatim>\<open>path.Base\<close>: the last element of the path, after trailing slashes are removed;
  \<^verbatim>\<open>"."\<close> for the empty path and \<^verbatim>\<open>"/"\<close> for a path of slashes only.
\<close>

definition strip_slashes :: "string \<Rightarrow> string" where
  "strip_slashes p = rev (dropWhile (\<lambda>c. c = CHR ''/'') (rev p))"

definition path_Base :: "string \<Rightarrow> string" where
  "path_Base p =
     (if p = [] then ''.''
      else (let q = rev (takeWhile (\<lambda>c. c \<noteq> CHR ''/'') (rev (strip_slashes p)))
            in if q = [] then ''/'' else q))"

section \<open>wikidump: store\<close>

text \<open>
  A \<^verbatim>\<open>context.Context\<close>: the moment at which \<^verbatim>\<open>ctx.Done()\<close> is closed (\<open>None\<close> when it never
  is) and the value of \<^verbatim>\<open>ctx.Err()\<close> from then on.
\<close>

record Context =
  done_at :: "int option"
  cause :: err

text \<open>
  \<^verbatim>\<open>stream\<close>: \<^verbatim>\<open>http.NewRequest\<close>, then \<^verbatim>\<open>http.DefaultClient.Do\<close>; the body of the response
  is what the network oracle answers at that moment. Whether the URL is accepted and
  whether the request goes through (it does not under a cancelled context) is the
  answer of the fault oracle.
\<close>

definition stream :: "Context \<Rightarrow> fileInfo \<Rightarrow> world \<Rightarrow> (err + body) \<times> world" where
  "stream ctx fi w =
     (let (e1, w1) = sys (EvNewRequest (URL fi)) w
      in case e1 of
           Some e \<Rightarrow>
             (Inl (Wrap e (''Error: unable create a request with the following url: '' @ URL fi)), w1)
         | None \<Rightarrow>
             (let r = network w1 (tick w1) (URL fi);
                  (e2, w2) = sys (EvGet (URL fi)) w1
              in case e2 of
                   Some e \<Rightarrow>
                     (Inl (Wrap e (''Error: unable do a request with the following url: '' @ URL fi)), w2)
                 | None \<Rightarrow> (Inr r, w2)))"

text \<open>
  \<^verbatim>\<open>io.Copy(io.MultiWriter(tempFile, hash), body)\<close>: each chunk read from the body is
  written to the file first and, when the file took all of it, to the hash; \<open>acc\<close> is
  what the hash has been given. A read error other than \<open>EOF\<close> is the result of the copy.
\<close>

fun io_Copy :: "nat \<Rightarrow> byte list list \<Rightarrow> err \<Rightarrow> byte list \<Rightarrow> world
                  \<Rightarrow> (err option \<times> byte list) \<times> world" where
  "io_Copy h [] fin acc w = ((if fin = EOF then None else Some fin, acc), w)"
| "io_Copy h (c # cs) fin acc w =
     (if c = [] then io_Copy h cs fin acc w
      else (case File_Write h c w of
              ((n, ew), w1) \<Rightarrow>
                if ew \<noteq> None then ((ew, acc), w1)
                else if n \<noteq> length c then ((Some ErrShortWrite, acc), w1)
                else io_Copy h cs fin (acc @ c) w1))"

text \<open>
  \<^verbatim>\<open>checkFileSHA1\<close>: when \<^verbatim>\<open>os.Open\<close> fails, \<open>f\<close> is nil and the warning's \<^verbatim>\<open>f.Name()\<close>
  dereferences it. \<open>sha1\<close> is \<^verbatim>\<open>crypto/sha1\<close>'s digest of a byte sequence.
\<close>

definition checkFileSHA1 :: "(byte list \<Rightarrow> byte list) \<Rightarrow> path \<Rightarrow> string \<Rightarrow> world
                               \<Rightarrow> unit outcome \<times> world" where
  "checkFileSHA1 sha1 fname SHA1' w =
     (case os_Open fname w of
        (Inl e, w1) \<Rightarrow> (Panic, w1)
      | (Inr f, w1) \<Rightarrow>
          (let (er, w2) = sys (EvRead f) w1;
               w3 = (case er of
                       Some e \<Rightarrow>
                         fmt_Print (''Warning: unable to SHA1 the following file: '' @ File_Name f w2)
                           (Some e) w2
                     | None \<Rightarrow>
                         if hex (sha1 (case fs w2 fname of Some bs \<Rightarrow> bs | None \<Rightarrow> [])) \<noteq> SHA1'
                         then fmt_Print (''Warning: mismatched SHA1 for the file: '' @ File_Name f w2)
                                None w2
                         else w2)
           in (Return (), snd (File_Close f w3))))"

type_synonym closer = "world \<Rightarrow> err option \<times> world"

text \<open>
  The declaration of \<^verbatim>\<open>virtualFile\<close> is not among the sources; its three fields are those
  of the composite literal \<^verbatim>\<open>virtualFile{tempFile, fclose, tempFile.Name()}\<close> that \<^verbatim>\<open>store\<close>
  returns, and \<^verbatim>\<open>virtualFile{}\<close> is the value with all three zero.
\<close>

record virtualFile =
  Reader :: "nat option"
  Closer :: "closer option"
  Name :: string

definition zero_virtualFile :: virtualFile where
  "zero_virtualFile = \<lparr>Reader = None, Closer = None, Name = []\<rparr>"

text \<open>The closure \<^verbatim>\<open>fclose\<close> of \<^verbatim>\<open>store\<close>, for the file that \<^verbatim>\<open>tempFile\<close> holds when it runs.\<close>

definition fclose :: "nat \<Rightarrow> closer" where
  "fclose tempFile w =
     (let (c, w1) = File_Close tempFile w;
          err1 = errors_Wrap c (''Error while closing reader of file '' @ File_Name tempFile w1);
          (r, w2) = os_Remove (File_Name tempFile w1) w1;
          err0 = errors_Wrap r (''Error while removing file '' @ File_Name tempFile w2)
      in (if err1 \<noteq> None then err1 else err0, w2))"

definition fail :: "nat \<Rightarrow> err \<Rightarrow> world \<Rightarrow> (err + virtualFile) outcome \<times> world" where
  "fail tempFile e w = (Return (Inl e), snd (fclose tempFile w))"

text \<open>
  The part of \<^verbatim>\<open>store\<close> after \<^verbatim>\<open>stream\<close> has succeeded. When the final \<^verbatim>\<open>os.Open\<close> fails,
  \<^verbatim>\<open>tempFile\<close> has been assigned nil and the argument \<^verbatim>\<open>tempFile.Name()\<close> of \<^verbatim>\<open>fail\<close>
  dereferences it before \<^verbatim>\<open>fail\<close> is entered.
\<close>

definition store_body :: "(byte list \<Rightarrow> byte list) \<Rightarrow> fileInfo \<Rightarrow> nat \<Rightarrow> body \<Rightarrow> world
                            \<Rightarrow> (err + virtualFile) outcome \<times> world" where
  "store_body sha1 fi tempFile b w =
     (case io_Copy tempFile (chunks b) (final b) [] w of
        ((Some e, acc), w1) \<Rightarrow>
          fail tempFile (Wrap e (''Error: unable to copy to file the following url: '' @ URL fi)) w1
      | ((None, acc), w1) \<Rightarrow>
          if hex (sha1 acc) \<noteq> SHA1 fi
          then fail tempFile
                 (New (''Error: mismatched SHA1 for the file downloaded from the following url: ''
                        @ URL fi)) w1
          else (case File_Close tempFile w1 of
                  (Some e, w2) \<Rightarrow>
                    fail tempFile
                      (Wrap e (''Error: unable to close the following file: '' @ File_Name tempFile w2))
                      w2
                | (None, w2) \<Rightarrow>
                    (case checkFileSHA1 sha1 (File_Name tempFile w2) (SHA1 fi) w2 of
                       (Panic, w3) \<Rightarrow> (Panic, w3)
                     | (Return u, w3) \<Rightarrow>
                         (case os_Open (File_Name tempFile w3) w3 of
                            (Inl e, w4) \<Rightarrow> (Panic, w4)
                          | (Inr f, w4) \<Rightarrow>
                              (Return (Inr \<lparr>Reader = Some f, Closer = Some (fclose f),
                                            Name = File_Name f w4\<rparr>), w4)))))"

definition store :: "(byte list \<Rightarrow> byte list) \<Rightarrow> Wikidump \<Rightarrow> Context \<Rightarrow> fileInfo \<Rightarrow> world
                       \<Rightarrow> (err + virtualFile) outcome \<times> world" where
  "store sha1 W ctx fi w =
     (case ioutil_TempFile (tmpDir W) (path_Base (URL fi)) w of
        (Inl e, w1) \<Rightarrow>
          (Return (Inl (Wrap e (''Error: unable to create temporary file in '' @ tmpDir W))), w1)
      | (Inr tempFile, w1) \<Rightarrow>
          (case stream ctx fi w1 of
             (Inl e, w2) \<Rightarrow> fail tempFile e w2
           | (Inr b, w2) \<Rightarrow>
               (case store_body sha1 fi tempFile b w2 of
                  (res, w3) \<Rightarrow> (res, snd (sys EvBodyClose w3)))))"

section \<open>wikidump: stubbornStore, open and the iterator of Open\<close>

text \<open>Durations are nanoseconds, as \<^verbatim>\<open>time.Duration\<close> is.\<close>

definition Second :: int where
  "Second = 1000000000"

definition Hour :: int where
  "Hour = 3600 * Second"

text \<open>
  The \<^verbatim>\<open>select\<close> of \<^verbatim>\<open>stubbornStore\<close> on \<^verbatim>\<open>ctx.Done()\<close> and \<^verbatim>\<open>time.After(t)\<close>, for a positive
  \<open>t\<close>; the result is \<open>True\<close> when the \<^verbatim>\<open>ctx.Done()\<close> case is taken. The timer fires at
  \<open>clock w + t\<close>. A context that is done before that moment ends the wait at once (at
  \<open>done_at\<close>, or now when it was done already); when both channels become ready at the
  same moment Go chooses either case, here by the oracle \<open>coin\<close>.
\<close>

definition select :: "Context \<Rightarrow> int \<Rightarrow> world \<Rightarrow> bool \<times> world" where
  "select ctx t w =
     (let w1 = w\<lparr>tick := tick w + 1, trace := trace w @ [EvAfter t]\<rparr>
      in case done_at ctx of
           None \<Rightarrow> (False, w1\<lparr>clock := clock w + t\<rparr>)
         | Some c \<Rightarrow>
             if c < clock w + t then (True, w1\<lparr>clock := max (clock w) c\<rparr>)
             else if c = clock w + t \<and> coin w (tick w) then (True, w1\<lparr>clock := clock w + t\<rparr>)
             else (False, w1\<lparr>clock := clock w + t\<rparr>))"

text \<open>
  The loop of \<^verbatim>\<open>stubbornStore\<close>, from the value \<open>t\<close> of its variable; \<open>res\<close> holds the
  named results \<^verbatim>\<open>r, err\<close>. The loop does not end for every \<open>t\<close> (from \<open>t = 0\<close> it runs for
  ever when \<^verbatim>\<open>store\<close> keeps failing), so not returning is the value \<open>None\<close>.
\<close>

partial_function (option) stubbornStore_loop ::
  "(byte list \<Rightarrow> byte list) \<Rightarrow> Wikidump \<Rightarrow> Context \<Rightarrow> fileInfo \<Rightarrow> int \<Rightarrow> err + virtualFile
     \<Rightarrow> world \<Rightarrow> ((err + virtualFile) outcome \<times> world) option" where
  "stubbornStore_loop sha1 W ctx fi t res w =
     (if t < Hour then
        (case store sha1 W ctx fi w of
           (Panic, w1) \<Rightarrow> Some (Panic, w1)
         | (Return (Inr r), w1) \<Rightarrow> Some (Return (Inr r), w1)
         | (Return (Inl e), w1) \<Rightarrow>
             (case select ctx t w1 of
                (cancelled, w2) \<Rightarrow>
                  if cancelled
                  then Some (Return (Inl (Wrap (cause ctx) ''Error: change in context state'')), w2)
                  else stubbornStore_loop sha1 W ctx fi (t * 2) (Inl e) w2))
      else Some (Return res, w))"

definition stubbornStore ::
  "(byte list \<Rightarrow> byte list) \<Rightarrow> Wikidump \<Rightarrow> Context \<Rightarrow> fileInfo \<Rightarrow> world
     \<Rightarrow> ((err + virtualFile) outcome \<times> world) option" where
  "stubbornStore sha1 W ctx fi w = stubbornStore_loop sha1 W ctx fi Second (Inr zero_virtualFile) w"

text \<open>
  The variants of \<^verbatim>\<open>un7Zip\<close>, \<^verbatim>\<open>unBZip2\<close> and \<^verbatim>\<open>unGZip\<close> that \<^verbatim>\<open>open\<close> calls take and return a
  \<^verbatim>\<open>virtualFile\<close>; they are not among the sources (\<^verbatim>\<open>utils.go\<close> holds the variants on
  \<^verbatim>\<open>io.ReadCloser\<close>, modelled below), so \<^verbatim>\<open>open\<close> takes them as the parameter \<open>dec\<close>.
\<close>

type_synonym decoder = "virtualFile \<Rightarrow> world \<Rightarrow> (err + virtualFile) outcome \<times> world"

record decoders =
  dec7Zip :: decoder
  decBZip2 :: decoder
  decGZip :: decoder

definition "open" ::
  "(byte list \<Rightarrow> byte list) \<Rightarrow> decoders \<Rightarrow> Wikidump \<Rightarrow> Context \<Rightarrow> fileInfo \<Rightarrow> world
     \<Rightarrow> ((err + virtualFile) outcome \<times> world) option" where
  "open sha1 dec W ctx fi w =
     (case stubbornStore sha1 W ctx fi w of
        None \<Rightarrow> None
      | Some (Panic, w1) \<Rightarrow> Some (Panic, w1)
      | Some (Return (Inl e), w1) \<Rightarrow> Some (Return (Inl e), w1)
      | Some (Return (Inr r), w1) \<Rightarrow>
          if HasSuffix (URL fi) ''.7z'' then Some (dec7Zip dec r w1)
          else if HasSuffix (URL fi) ''.bz2'' then Some (decBZip2 dec r w1)
          else if HasSuffix (URL fi) ''.gz'' then Some (decGZip dec r w1)
          else Some (Return (Inr r), w1))"

text \<open>\<^verbatim>\<open>CheckFor\<close>: the receiver is passed by value and only read.\<close>

fun CheckFor :: "Wikidump \<Rightarrow> string list \<Rightarrow> err option" where
  "CheckFor W [] = None"
| "CheckFor W (filename # filenames) =
     (if file2Info W filename = None then Some (New (filename @ '' not found''))
      else CheckFor W filenames)"

text \<open>
  The closure that \<^verbatim>\<open>Open\<close> returns owns the two variables \<^verbatim>\<open>ffi\<close> and \<^verbatim>\<open>err\<close>; they are the
  state of the iterator. Indexing the map with a missing key gives the nil slice.
\<close>

record iterator =
  ffi :: "fileInfo list"
  err :: "err option"

definition Open :: "Wikidump \<Rightarrow> string \<Rightarrow> iterator" where
  "Open W filename =
     \<lparr>ffi = (case file2Info W filename of Some l \<Rightarrow> l | None \<Rightarrow> []),
      err = CheckFor W [filename]\<rparr>"

text \<open>
  One call of the closure: the result (an error or a stream), the closure's variables
  after the call, and the world. A call that panics leaves the variables as they were
  when \<^verbatim>\<open>open\<close> was entered.
\<close>

definition "next" ::
  "(byte list \<Rightarrow> byte list) \<Rightarrow> decoders \<Rightarrow> Wikidump \<Rightarrow> iterator \<Rightarrow> Context \<Rightarrow> world
     \<Rightarrow> ((err + virtualFile) outcome \<times> iterator \<times> world) option" where
  "next sha1 dec W it ctx w =
     (case err it of
        Some e \<Rightarrow> Some (Return (Inl e), it, w)
      | None \<Rightarrow>
          (case ffi it of
             [] \<Rightarrow> Some (Return (Inl EOF), it\<lparr>err := Some EOF\<rparr>, w)
           | fi # rest \<Rightarrow>
               (case open sha1 dec W ctx fi w of
                  None \<Rightarrow> None
                | Some (Panic, w1) \<Rightarrow> Some (Panic, it, w1)
                | Some (Return (Inl e), w1) \<Rightarrow>
                    Some (Return (Inl e), \<lparr>ffi = rest, err = Some e\<rparr>, w1)
                | Some (Return (Inr r), w1) \<Rightarrow>
                    Some (Return (Inr r), \<lparr>ffi = rest, err = None\<rparr>, w1))))"

text \<open>
  A caller pulling from the iterator: one call of the closure per element of the list,
  with the context it passes and whatever it does to the world afterwards (reading and
  closing the stream it got, or anything else). The results of the calls are collected;
  a panic ends the run.
\<close>

fun calls ::
  "(byte list \<Rightarrow> byte list) \<Rightarrow> decoders \<Rightarrow> Wikidump \<Rightarrow> iterator \<Rightarrow> (Context \<times> (world \<Rightarrow> world)) list
     \<Rightarrow> world \<Rightarrow> ((err + virtualFile) outcome list \<times> iterator \<times> world) option" where
  "calls sha1 dec W it [] w = Some ([], it, w)"
| "calls sha1 dec W it ((ctx, after) # cs) w =
     (case next sha1 dec W it ctx w of
        None \<Rightarrow> None
      | Some (Panic, it1, w1) \<Rightarrow> Some ([Panic], it1, w1)
      | Some (Return r, it1, w1) \<Rightarrow>
          (case calls sha1 dec W it1 cs (after w1) of
             None \<Rightarrow> None
           | Some (rs, it2, w2) \<Rightarrow> Some (Return r # rs, it2, w2)))"


section \<open>utils.go\<close>

text \<open>
  The values that the functions of \<^verbatim>\<open>utils.go\<close> receive as \<^verbatim>\<open>io.Reader\<close> or \<^verbatim>\<open>io.ReadCloser\<close>:
  an \<^verbatim>\<open>*os.File\<close>, the struct \<^verbatim>\<open>readClose\<close> of this package, the readers of \<^verbatim>\<open>compress/gzip\<close>,
  \<^verbatim>\<open>compress/bzip2\<close> and \<^verbatim>\<open>bufio\<close>, the reader that \<^verbatim>\<open>lzmadec\<close> gives for an archive entry,
  and any other \<^verbatim>\<open>io.ReadCloser\<close> (known by its \<^verbatim>\<open>Close\<close> method only).
\<close>

datatype ioReader =
    OsFile nat
  | readClose ioReader closer
  | GzipReader ioReader
  | Bzip2Reader ioReader
  | BufioReader ioReader
  | EntryReader path string
  | OtherReadCloser nat closer

definition gzip_NewReader :: "ioReader \<Rightarrow> world \<Rightarrow> (err + ioReader) \<times> world" where
  "gzip_NewReader r w =
     (case sys EvGzipHeader w of
        (Some e, w1) \<Rightarrow> (Inl e, w1)
      | (None, w1) \<Rightarrow> (Inr (GzipReader r), w1))"

definition gzip_Close :: closer where
  "gzip_Close w = sys EvGzipClose w"

text \<open>
  The method \<^verbatim>\<open>Close\<close>: \<^verbatim>\<open>readClose.Close\<close> calls the field \<^verbatim>\<open>Closer\<close>. The readers of bzip2,
  bufio and lzmadec are never closed by this package.
\<close>

fun Close :: "ioReader \<Rightarrow> closer" where
  "Close (readClose r c) = c"
| "Close (OsFile f) = File_Close f"
| "Close (GzipReader r) = gzip_Close"
| "Close (OtherReadCloser n c) = c"
| "Close (Bzip2Reader r) = (\<lambda>w. (None, w))"
| "Close (BufioReader r) = (\<lambda>w. (None, w))"
| "Close (EntryReader p e) = (\<lambda>w. (None, w))"

text \<open>The closure that \<^verbatim>\<open>unGZip\<close> returns as \<^verbatim>\<open>Closer\<close>.\<close>

definition unGZip_close :: "ioReader \<Rightarrow> ioReader \<Rightarrow> closer" where
  "unGZip_close ro ri w =
     (let (err1, wa) = Close ro w;
          (err0, wb) = Close ri wa
      in (if err1 \<noteq> None then err1 else err0, wb))"

definition unGZip :: "ioReader \<Rightarrow> world \<Rightarrow> (err + ioReader) \<times> world" where
  "unGZip ri w =
     (case gzip_NewReader ri w of
        (Inl e, w1) \<Rightarrow> (Inl e, snd (Close ri w1))
      | (Inr ro, w1) \<Rightarrow> (Inr (readClose ro (unGZip_close ro ri)), w1))"

definition unBZip2 :: "ioReader \<Rightarrow> world \<Rightarrow> (err + ioReader) \<times> world" where
  "unBZip2 r w = (Inr (readClose (Bzip2Reader (BufioReader r)) (Close r)), w)"

definition filename :: "ioReader \<Rightarrow> world \<Rightarrow> (err + string) \<times> world" where
  "filename r w =
     (case r of
        readClose rd c \<Rightarrow>
          (case rd of
             OsFile f \<Rightarrow> (let w1 = snd (File_Close f w) in (Inr (File_Name f w1), w1))
           | _ \<Rightarrow> (Inl (New ''Unable to cast to *os.File''), w))
      | _ \<Rightarrow> (Inl (New ''Unable to cast to readClose''), w))"

definition code2Meaning :: "int \<rightharpoonup> string" where
  "code2Meaning =
     [1 \<mapsto> ''Warning'', 2 \<mapsto> ''Fatal error'', 3 \<mapsto> ''Change identified'',
      7 \<mapsto> ''Command line error'', 8 \<mapsto> ''Not enough memory for operation'',
      255 \<mapsto> ''User stopped the process'']"

definition lzmadecErr2Meaning :: "err option \<Rightarrow> string" where
  "lzmadecErr2Meaning e =
     (case e of
        None \<Rightarrow> []
      | Some (ExitError status) \<Rightarrow>
          (case code2Meaning status of Some m \<Rightarrow> m | None \<Rightarrow> ''Error'')
      | Some _ \<Rightarrow> ''Error'')"

text \<open>
  \<^verbatim>\<open>lzmadec.NewArchive(fname)\<close> runs the external tool to list the archive;
  \<^verbatim>\<open>archive.GetFileReader(path)\<close> runs it to extract one entry.
\<close>

record Archive =
  Path :: path
  Entries :: "string list"

definition lzmadec_NewArchive :: "path \<Rightarrow> world \<Rightarrow> (err + Archive) \<times> world" where
  "lzmadec_NewArchive fname w =
     (case sys (EvList7z fname) w of
        (Some e, w1) \<Rightarrow> (Inl e, w1)
      | (None, w1) \<Rightarrow>
          (case fs w1 fname of
             None \<Rightarrow> (Inl ErrNotExist, w1)
           | Some bs \<Rightarrow> (Inr \<lparr>Path = fname, Entries = entries7z w1 bs\<rparr>, w1)))"

definition GetFileReader :: "Archive \<Rightarrow> string \<Rightarrow> world \<Rightarrow> (err + ioReader) \<times> world" where
  "GetFileReader a p w =
     (case sys (EvExtract7z (Path a) p) w of
        (Some e, w1) \<Rightarrow> (Inl e, w1)
      | (None, w1) \<Rightarrow> (Inr (EntryReader (Path a) p), w1))"

text \<open>The verb \<^verbatim>\<open>%v\<close> on an \<^verbatim>\<open>int\<close> that is a length: its decimal digits.\<close>

function show_nat :: "nat \<Rightarrow> string" where
  "show_nat n =
     (if n < 10 then [''0123456789'' ! n]
      else show_nat (n div 10) @ [''0123456789'' ! (n mod 10)])"
  by pat_completeness auto
termination
  by (relation "measure id") auto

declare show_nat.simps [simp del]

text \<open>The closure that \<^verbatim>\<open>un7Zip\<close> returns as \<^verbatim>\<open>Closer\<close>.\<close>

definition un7Zip_close :: "ioReader \<Rightarrow> path \<Rightarrow> closer" where
  "un7Zip_close ri fname w =
     (let (err1, wa) = Close ri w;
          (err0, wb) = os_Remove fname wa
      in (if err1 \<noteq> None then err1 else err0, wb))"

definition un7Zip_fail :: "ioReader \<Rightarrow> err \<Rightarrow> world \<Rightarrow> (err + ioReader) \<times> world" where
  "un7Zip_fail ri e w = (Inl e, snd (Close ri w))"

definition un7Zip :: "ioReader \<Rightarrow> world \<Rightarrow> (err + ioReader) \<times> world" where
  "un7Zip ri w =
     (case filename ri w of
        (Inl e, w1) \<Rightarrow> un7Zip_fail ri e w1
      | (Inr fname, w1) \<Rightarrow>
          (case lzmadec_NewArchive fname w1 of
             (Inl e, w2) \<Rightarrow>
               un7Zip_fail ri
                 (Wrap e (lzmadecErr2Meaning (Some e) @ '' while listing content of file '' @ fname))
                 w2
           | (Inr archive, w2) \<Rightarrow>
               if length (Entries archive) \<noteq> 1
               then un7Zip_fail ri
                      (New (''Error entries count differs from one - ''
                            @ show_nat (length (Entries archive)) @ '' - for file '' @ fname))
                      w2
               else (case GetFileReader archive (Entries archive ! 0) w2 of
                       (Inl e, w3) \<Rightarrow>
                         un7Zip_fail ri
                           (Wrap e (lzmadecErr2Meaning (Some e) @ '' while opening file '' @ fname))
                           w3
                     | (Inr r, w3) \<Rightarrow> (Inr (readClose r (un7Zip_close ri fname)), w3))))"

section \<open>Counting attempts and waits\<close>

text \<open>
  Counters over the trace: every call of \<^verbatim>\<open>store\<close> begins with its one call of
  \<^verbatim>\<open>ioutil.TempFile\<close>, and every wait of \<^verbatim>\<open>stubbornStore\<close> creates one timer.
\<close>

fun store_calls :: "event list \<Rightarrow> nat" where
  "store_calls [] = 0"
| "store_calls (EvTempFile d p # evs) = Suc (store_calls evs)"
| "store_calls (ev # evs) = store_calls evs"

fun waits :: "event list \<Rightarrow> int list" where
  "waits [] = []"
| "waits (EvAfter t # evs) = t # waits evs"
| "waits (ev # evs) = waits evs"




section \<open>Example inputs\<close>

text \<open>
  The examples download an empty body. \<open>digest0\<close> is a digest function that agrees with
  SHA-1 on the empty input, the only input the examples hash.
\<close>

definition digest0 :: "byte list \<Rightarrow> byte list" where
  "digest0 bs = [218, 57, 163, 238, 94, 107, 75, 13, 50, 85, 191, 239, 149, 96, 24, 144, 175,
                 216, 7, 9]"

definition fi0 :: fileInfo where
  "fi0 = \<lparr>URL = ''http://example.org/dump.gz'', SHA1 = ''da39a3ee5e6b4b0d3255bfef95601890afd80709''\<rparr>"

definition fi_bad :: fileInfo where
  "fi_bad = \<lparr>URL = ''http://example.org/dump.gz'', SHA1 = ''00''\<rparr>"

definition W0 :: Wikidump where
  "W0 = \<lparr>file2Info = [''dump'' \<mapsto> [fi0], ''none'' \<mapsto> []], tmpDir = ''/tmp'', date = 0\<rparr>"

text \<open>An empty disk, a network that serves the empty body, and the faults \<open>flt\<close>.\<close>

definition world0 :: "(nat \<Rightarrow> err option) \<Rightarrow> world" where
  "world0 flt =
     \<lparr>fs = Map.empty, files = Map.empty, nfiles = 0, tick = 0, clock = 0, trace = [],
      faults = flt, shorts = (\<lambda>t. 0), rand = (\<lambda>t. ''0''),
      network = (\<lambda>t u. \<lparr>chunks = [], final = EOF\<rparr>), elapse = (\<lambda>t. 0),
      coin = (\<lambda>t. False), entries7z = (\<lambda>bs. [])\<rparr>"

definition ctx0 :: Context where
  "ctx0 = \<lparr>done_at = None, cause = Canceled\<rparr>"

text \<open>A context that is cancelled half a second after the start.\<close>

definition ctx_c :: Context where
  "ctx_c = \<lparr>done_at = Some 500000000, cause = Canceled\<rparr>"

text \<open>A world in which every external call fails.\<close>

definition w_fail :: world where
  "w_fail = world0 (\<lambda>t. Some (Sys 1))"






text \<open>A world in which only the eighth external call fails: the last \<^verbatim>\<open>os.Open\<close> of \<^verbatim>\<open>store\<close>.\<close>

definition w_reopen :: world where
  "w_reopen = world0 (\<lambda>t. if t = 7 then Some (Sys 24) else None)"

text \<open>A world in which the spool file of the examples is on disk and open as file 2.\<close>

definition w_spool :: world where
  "w_spool = (world0 (\<lambda>t. None))
     \<lparr>fs := [''/tmp/dump.gz0'' \<mapsto> []], files := [2 \<mapsto> (''/tmp/dump.gz0'', False)], nfiles := 3,
      entries7z := (\<lambda>bs. [''dump.xml''])\<rparr>"

text \<open>The same with an archive of two entries, and with a decoder whose Close fails.\<close>

definition w_two :: world where
  "w_two = w_spool\<lparr>entries7z := (\<lambda>bs. [''a.xml'', ''b.xml''])\<rparr>"

definition w_badgz :: world where
  "w_badgz = w_spool\<lparr>faults := (\<lambda>t. if t = 0 then Some (Sys 5) else None)\<rparr>"

definition ri0 :: ioReader where
  "ri0 = readClose (OsFile 2) (fclose 2)"

text \<open>Decoders that only mark the name of the file they are given.\<close>

definition mark :: "string \<Rightarrow> decoder" where
  "mark tag r w = (Return (Inr (r\<lparr>Name := tag @ Name r\<rparr>)), w)"

definition dec0 :: decoders where
  "dec0 = \<lparr>dec7Zip = mark ''7z:'', decBZip2 = mark ''bz2:'', decGZip = mark ''gz:''\<rparr>"

text \<open>A world in which no external call fails.\<close>

definition w_ok :: world where
  "w_ok = world0 (\<lambda>t. None)"

definition vf0 :: virtualFile where
  "vf0 = \<lparr>Reader = Some 2, Closer = Some (fclose 2), Name = ''/tmp/dump.gz0''\<rparr>"

section \<open>The external calls: what they change\<close>

lemma sys_fields [simp]:
  "fs (snd (sys ev w)) = fs w"
  "files (snd (sys ev w)) = files w"
  "nfiles (snd (sys ev w)) = nfiles w"
  "tick (snd (sys ev w)) = tick w + 1"
  "trace (snd (sys ev w)) = trace w @ [ev]"
  "faults (snd (sys ev w)) = faults w"
  "shorts (snd (sys ev w)) = shorts w"
  "rand (snd (sys ev w)) = rand w"
  "network (snd (sys ev w)) = network w"
  "coin (snd (sys ev w)) = coin w"
  "entries7z (snd (sys ev w)) = entries7z w"
  "fst (sys ev w) = faults w (tick w)"
  by (simp_all add: sys_def)

lemma File_Write_ok:
  assumes "File_Write h c w = ((k, None), w1)" "files w h = Some (n, False)" "fs w n = Some old"
  shows "k = length c \<and> fs w1 n = Some (old @ c) \<and> files w1 = files w \<and> tick w1 = tick w + 1"
  using assms
  by (auto simp: File_Write_def append_file_def Let_def sys_def split: option.splits if_splits prod.splits)

lemma io_Copy_ok:
  assumes "io_Copy h cs fin acc w = ((None, acc'), w')" "files w h = Some (n, False)" "fs w n = Some old"
  shows "acc' = acc @ concat cs \<and> fs w' n = Some (old @ concat cs) \<and> files w' = files w \<and> fin = EOF"
  using assms
proof (induction cs arbitrary: acc w old)
  case Nil
  then show ?case by (auto split: if_splits)
next
  case (Cons c cs)
  show ?case
  proof (cases "c = []")
    case True
    with Cons.prems have "io_Copy h cs fin acc w = ((None, acc'), w')" by simp
    from Cons.IH [OF this Cons.prems(2,3)] True show ?thesis by simp
  next
    case False
    obtain k ew w1 where fw: "File_Write h c w = ((k, ew), w1)"
      by (metis prod.exhaust)
    with Cons.prems(1) False have ew: "ew = None" and k: "k = length c"
      and rest: "io_Copy h cs fin (acc @ c) w1 = ((None, acc'), w')"
      by (auto split: if_splits)
    from File_Write_ok [OF fw [unfolded ew] Cons.prems(2,3)]
    have w1: "fs w1 n = Some (old @ c)" "files w1 = files w" by simp_all
    from Cons.IH [OF rest _ w1(1)] w1(2) Cons.prems(2)
    show ?thesis by simp
  qed
qed

lemma TempFile_ok:
  assumes "ioutil_TempFile d p w = (Inr h, w1)"
  shows "files w1 h = Some (d @ ''/'' @ p @ rand w (tick w), False) \<and>
         fs w1 (d @ ''/'' @ p @ rand w (tick w)) = Some [] \<and>
         tick w1 = tick w + 1 \<and> network w1 = network w \<and> h < nfiles w1"
  using assms
  by (auto simp: ioutil_TempFile_def Let_def sys_def split: option.splits if_splits)

lemma stream_ok:
  assumes "stream ctx fi w = (Inr b, w2)"
  shows "b = network w (tick w + 1) (URL fi) \<and> fs w2 = fs w \<and> files w2 = files w \<and>
         nfiles w2 = nfiles w"
  using assms
  by (auto simp: stream_def Let_def sys_def split: option.splits if_splits)

lemma File_Close_frame:
  assumes "File_Close h w = (r, w1)"
  shows "fs w1 = fs w \<and> nfiles w1 = nfiles w \<and> File_Name h' w1 = File_Name h' w"
  using assms
  by (auto simp: File_Close_def File_Name_def Let_def sys_def split: option.splits if_splits)

lemma os_Open_frame:
  assumes "os_Open n w = (r, w1)"
  shows "fs w1 = fs w \<and> nfiles w \<le> nfiles w1 \<and> (\<forall>h < nfiles w. files w1 h = files w h)"
  using assms
  by (auto simp: os_Open_def Let_def sys_def split: option.splits if_splits)

lemma os_Open_ok:
  assumes "os_Open n w = (Inr f, w1)"
  shows "files w1 f = Some (n, False) \<and> fs w n \<noteq> None"
  using assms
  by (auto simp: os_Open_def Let_def sys_def split: option.splits if_splits)

lemma fmt_Print_fields [simp]:
  "fs (fmt_Print m e w) = fs w" "files (fmt_Print m e w) = files w"
  "nfiles (fmt_Print m e w) = nfiles w"
  by (simp_all add: fmt_Print_def)

lemma File_Close_files:
  "h' \<noteq> h \<Longrightarrow> files (snd (File_Close h w)) h' = files w h'"
  by (auto simp: File_Close_def Let_def sys_def split: option.splits if_splits)

lemma File_Close_snd [simp]:
  "fs (snd (File_Close h w)) = fs w" "nfiles (snd (File_Close h w)) = nfiles w"
  by (auto simp: File_Close_def Let_def sys_def split: option.splits if_splits)

lemma os_Open_fresh:
  "os_Open n w = (Inr f, w1) \<Longrightarrow> f = nfiles w"
  by (auto simp: os_Open_def Let_def sys_def split: option.splits if_splits)

lemma checkFileSHA1_frame:
  assumes "checkFileSHA1 sha1 n s w = (r, w1)"
  shows "fs w1 = fs w \<and> nfiles w \<le> nfiles w1 \<and> (\<forall>h < nfiles w. files w1 h = files w h)"
proof (cases "os_Open n w")
  case (Pair o' wa)
  note fr = os_Open_frame [OF Pair]
  show ?thesis
  proof (cases o')
    case (Inl e)
    with Pair assms fr show ?thesis by (simp add: checkFileSHA1_def)
  next
    case (Inr f)
    with Pair have f: "f = nfiles w" by (simp add: os_Open_fresh)
    from assms Pair Inr obtain wc where w1: "w1 = snd (File_Close f wc)"
      and wc: "fs wc = fs wa \<and> files wc = files wa \<and> nfiles wc = nfiles wa"
      by (auto simp: checkFileSHA1_def Let_def split_def split: option.splits if_splits)
    from File_Close_files [of _ f wc] wc fr f w1
    show ?thesis by auto
  qed
qed

lemma io_Copy_nfiles:
  "io_Copy h cs fin acc w = (r, w') \<Longrightarrow> nfiles w' = nfiles w"
proof (induction cs arbitrary: acc w)
  case Nil then show ?case by auto
next
  case (Cons c cs)
  have fw: "nfiles (snd (File_Write h c w)) = nfiles w"
    by (auto simp: File_Write_def append_file_def Let_def sys_def split: option.splits if_splits prod.splits)
  from Cons show ?case
    by (auto split: if_splits prod.splits) (use fw in auto)
qed

lemma fail_result [simp]: "fst (fail h e w) = Return (Inl e)"
  by (simp add: fail_def)

lemma store_body_ok:
  assumes sb: "store_body sha1 fi h b w = (Return (Inr vf), w')"
    and h: "files w h = Some (n, False)" "fs w n = Some []" "h < nfiles w"
  shows "Name vf = n \<and> fs w' n = Some (concat (chunks b)) \<and> final b = EOF \<and>
         hex (sha1 (concat (chunks b))) = SHA1 fi \<and>
         (\<exists>f. Reader vf = Some f \<and> Closer vf = Some (fclose f) \<and> files w' f = Some (n, False))"
proof -
  obtain ce acc w1 where cp: "io_Copy h (chunks b) (final b) [] w = ((ce, acc), w1)"
    by (metis prod.exhaust)
  have ce: "ce = None"
    using sb cp by (cases ce) (auto simp: store_body_def fail_def)
  from io_Copy_ok [OF cp [unfolded ce] h(1,2)]
  have acc: "acc = concat (chunks b)" and w1: "fs w1 n = Some (concat (chunks b))"
    "files w1 = files w" and fin: "final b = EOF" by simp_all
  have nf1: "nfiles w1 = nfiles w" using io_Copy_nfiles [OF cp] .
  have dg: "hex (sha1 acc) = SHA1 fi"
    using sb cp ce by (auto simp: store_body_def fail_def split: if_splits)
  obtain cl w2 where c2: "File_Close h w1 = (cl, w2)" by (metis prod.exhaust)
  have cl: "cl = None"
    using sb cp ce dg c2 by (cases cl) (auto simp: store_body_def fail_def)
  from File_Close_frame [OF c2]
  have w2: "fs w2 = fs w1" "nfiles w2 = nfiles w1" "File_Name h w2 = n"
    using w1(2) h(1) by (auto simp: File_Name_def)
  obtain ck w3 where c3: "checkFileSHA1 sha1 n (SHA1 fi) w2 = (ck, w3)" by (metis prod.exhaust)
  from checkFileSHA1_frame [OF c3]
  have w3: "fs w3 = fs w2" "nfiles w2 \<le> nfiles w3" "files w3 h = files w2 h"
    using h(3) nf1 w2(2) by auto
  have n3: "File_Name h w3 = n" using w3(3) w2(3) by (simp add: File_Name_def)
  obtain u where ck: "ck = Return u"
    using sb cp ce dg c2 cl c3 w2(3) by (cases ck) (auto simp: store_body_def)
  obtain o' w4 where c4: "os_Open n w3 = (o', w4)" by (metis prod.exhaust)
  obtain f where o': "o' = Inr f"
    using sb cp ce dg c2 cl c3 ck c4 w2(3) n3 by (cases o') (auto simp: store_body_def)
  from os_Open_ok [OF c4 [unfolded o']] os_Open_frame [OF c4]
  have w4: "files w4 f = Some (n, False)" "fs w4 = fs w3" by simp_all
  have res: "vf = \<lparr>Reader = Some f, Closer = Some (fclose f), Name = File_Name f w4\<rparr>" "w' = w4"
    using sb cp ce dg c2 cl c3 ck c4 o' w2(3) n3 by (auto simp: store_body_def)
  show ?thesis
    using res w4 w3(1) w2(1) w1(1) acc fin dg by (simp add: File_Name_def)
qed

lemma store_ok:
  assumes st: "store sha1 W ctx fi w = (Return (Inr vf), w')"
  shows "Name vf = tmpDir W @ ''/'' @ path_Base (URL fi) @ rand w (tick w) \<and>
         fs w' (Name vf) = Some (concat (chunks (network w (tick w + 2) (URL fi)))) \<and>
         final (network w (tick w + 2) (URL fi)) = EOF \<and>
         hex (sha1 (concat (chunks (network w (tick w + 2) (URL fi))))) = SHA1 fi \<and>
         (\<exists>f. Reader vf = Some f \<and> Closer vf = Some (fclose f) \<and> files w' f = Some (Name vf, False))"
proof -
  obtain t w1 where tf: "ioutil_TempFile (tmpDir W) (path_Base (URL fi)) w = (t, w1)"
    by (metis prod.exhaust)
  obtain h where t: "t = Inr h" using st tf by (cases t) (auto simp: store_def)
  note T = TempFile_ok [OF tf [unfolded t]]
  obtain s w2 where sm: "stream ctx fi w1 = (s, w2)" by (metis prod.exhaust)
  obtain b where s: "s = Inr b" using st tf t sm by (cases s) (auto simp: store_def fail_def)
  note S = stream_ok [OF sm [unfolded s]]
  obtain r w3 where sb: "store_body sha1 fi h b w2 = (r, w3)" by (metis prod.exhaust)
  have r: "r = Return (Inr vf)" and w': "w' = snd (sys EvBodyClose w3)"
    using st tf t sm s sb by (auto simp: store_def)
  from store_body_ok [OF sb [unfolded r], of "tmpDir W @ ''/'' @ path_Base (URL fi) @ rand w (tick w)"] T S
  show ?thesis by (auto simp: w')
qed

lemma store_body_not_error:
  assumes sb: "store_body sha1 fi h b w = (r, w')"
    and ne: "\<forall>e. r \<noteq> Return (Inl e)"
    and h: "files w h = Some (n, False)" "fs w n = Some []"
  shows "hex (sha1 (concat (chunks b))) = SHA1 fi"
proof -
  obtain ce acc w1 where cp: "io_Copy h (chunks b) (final b) [] w = ((ce, acc), w1)"
    by (metis prod.exhaust)
  have ce: "ce = None"
    using sb cp ne by (cases ce) (auto simp: store_body_def fail_def)
  from io_Copy_ok [OF cp [unfolded ce] h(1,2)]
  have acc: "acc = concat (chunks b)" by simp
  show ?thesis
    using sb cp ce ne acc by (auto simp: store_body_def fail_def split: if_splits)
qed

lemma store_not_error:
  assumes st: "store sha1 W ctx fi w = (r, w')" and ne: "\<forall>e. r \<noteq> Return (Inl e)"
  shows "hex (sha1 (concat (chunks (network w (tick w + 2) (URL fi))))) = SHA1 fi"
proof -
  obtain t w1 where tf: "ioutil_TempFile (tmpDir W) (path_Base (URL fi)) w = (t, w1)"
    by (metis prod.exhaust)
  obtain h where t: "t = Inr h" using st tf ne by (cases t) (auto simp: store_def)
  note T = TempFile_ok [OF tf [unfolded t]]
  obtain s w2 where sm: "stream ctx fi w1 = (s, w2)" by (metis prod.exhaust)
  obtain b where s: "s = Inr b" using st tf t sm ne by (cases s) (auto simp: store_def fail_def)
  note S = stream_ok [OF sm [unfolded s]]
  obtain r' w3 where sb: "store_body sha1 fi h b w2 = (r', w3)" by (metis prod.exhaust)
  have r: "r' = r" using st tf t sm s sb by (auto simp: store_def)
  from store_body_not_error [OF sb [unfolded r] ne, of "tmpDir W @ ''/'' @ path_Base (URL fi) @ rand w (tick w)"] T S
  show ?thesis by auto
qed

section \<open>Example runs of store\<close>

lemma hex_digest0: "hex (digest0 bs) = ''da39a3ee5e6b4b0d3255bfef95601890afd80709''"
  by (simp add: hex_def digest0_def hexdigit_def)

lemma base0: "path_Base ''http://example.org/dump.gz'' = ''dump.gz''"
  by (simp add: path_Base_def strip_slashes_def)

lemmas prims = sys_def ioutil_TempFile_def os_Open_def File_Name_def File_Close_def File_Write_def
  os_Remove_def fmt_Print_def append_file_def stream_def checkFileSHA1_def fclose_def fail_def
  store_body_def store_def

lemma store_ok0:
  "fst (store digest0 W0 ctx fi0 (world0 (\<lambda>t. None))) = Return (Inr vf0)"
  by (simp add: prims hex_digest0 base0 fi0_def W0_def world0_def vf0_def Let_def
        numeral_2_eq_2 [symmetric])

section \<open>Attempts and waits in the trace\<close>

lemma store_calls_append [simp]: "store_calls (xs @ ys) = store_calls xs + store_calls ys"
  by (induction xs rule: store_calls.induct) auto

lemma waits_append [simp]: "waits (xs @ ys) = waits xs @ waits ys"
  by (induction xs rule: waits.induct) auto
















lemma select_never: "done_at ctx = None \<Longrightarrow> fst (select ctx t w) = False"
  by (simp add: select_def Let_def)

section \<open>The loop of stubbornStore\<close>









section \<open>Closing spool handles\<close>

lemma File_Close_closed:
  "files w f = Some (n, b) \<Longrightarrow> is_closed (snd (File_Close f w)) f"
  by (auto simp: File_Close_def is_closed_def Let_def sys_def)

lemma File_Close_name:
  "files w f = Some (n, b) \<Longrightarrow> File_Name f (snd (File_Close f w)) = n"
  by (auto simp: File_Close_def File_Name_def Let_def sys_def)

lemma filename_spool:
  assumes "files w f = Some (n, b)"
  shows "filename (readClose (OsFile f) c) w = (Inr n, snd (File_Close f w))"
  using File_Close_name [OF assms] by (simp add: filename_def Let_def)

lemma os_Remove_closed: "is_closed (snd (os_Remove n w)) f = is_closed w f"
  by (auto simp: os_Remove_def is_closed_def Let_def sys_def split: option.splits)

lemma os_Remove_gone:
  "faults w (tick w) = None \<Longrightarrow> fs (snd (os_Remove n w)) n = None"
  by (auto simp: os_Remove_def Let_def sys_def split: option.splits)

lemma os_Remove_stays_gone:
  "fs w n = None \<Longrightarrow> fs (snd (os_Remove n w)) n = None"
  by (auto simp: os_Remove_def Let_def sys_def split: option.splits)

lemma os_Remove_env [simp]:
  "faults (snd (os_Remove n w)) = faults w" "tick (snd (os_Remove n w)) = tick w + 1"
  "files (snd (os_Remove n w)) = files w"
  "trace (snd (os_Remove n w)) = trace w @ [EvRemove n]"
  by (auto simp: os_Remove_def Let_def sys_def split: option.splits)

lemma File_Close_env [simp]:
  "faults (snd (File_Close f w)) = faults w" "tick (snd (File_Close f w)) = tick w + 1"
  "trace (snd (File_Close f w)) = trace w @ [EvClose f]"
  "entries7z (snd (File_Close f w)) = entries7z w"
  by (auto simp: File_Close_def Let_def sys_def split: option.splits)

lemma fclose_snd:
  assumes "files w f = Some (n, b)"
  shows "snd (fclose f w) = snd (os_Remove n (snd (File_Close f w)))"
  using File_Close_name [OF assms] by (simp add: fclose_def Let_def split_def)

lemma fclose_spool:
  assumes "files w f = Some (n, b)"
  shows "is_closed (snd (fclose f w)) f \<and>
         trace (snd (fclose f w)) = trace w @ [EvClose f, EvRemove n] \<and>
         tick (snd (fclose f w)) = tick w + 2 \<and>
         faults (snd (fclose f w)) = faults w \<and>
         (faults w (tick w + 1) = None \<longrightarrow> fs (snd (fclose f w)) n = None)"
  using File_Close_closed [OF assms]
  by (simp add: fclose_snd [OF assms] os_Remove_closed os_Remove_gone)

lemma un7Zip_close_eq:
  "fst (un7Zip_close ri n v) =
     (if fst (Close ri v) \<noteq> None then fst (Close ri v) else fst (os_Remove n (snd (Close ri v))))"
  "snd (un7Zip_close ri n v) = snd (os_Remove n (snd (Close ri v)))"
  by (simp_all add: un7Zip_close_def Let_def split_def)

lemma unGZip_close_eq:
  "fst (unGZip_close ro ri v) =
     (if fst (Close ro v) \<noteq> None then fst (Close ro v) else fst (Close ri (snd (Close ro v))))"
  "snd (unGZip_close ro ri v) = snd (Close ri (snd (Close ro v)))"
  by (simp_all add: unGZip_close_def Let_def split_def)

lemma File_Close_self:
  "files w f = Some (n, b) \<Longrightarrow> files (snd (File_Close f w)) f = Some (n, True)"
  by (auto simp: File_Close_def Let_def sys_def)

lemma lzmadec_world:
  "lzmadec_NewArchive n w = (a, w2) \<Longrightarrow> w2 = snd (sys (EvList7z n) w)"
  by (auto simp: lzmadec_NewArchive_def split: prod.splits option.splits)

lemma GetFileReader_world:
  "GetFileReader ar p w = (g, w3) \<Longrightarrow> w3 = snd (sys (EvExtract7z (Path ar) p) w)"
  by (auto simp: GetFileReader_def split: prod.splits option.splits)

lemma un7Zip_outcome:
  assumes f: "files w f = Some (n, b)"
    and u: "un7Zip (readClose (OsFile f) c) w = (r, w')"
  shows "(\<exists>e v. r = Inl e \<and> w' = snd (c v) \<and> files v f = Some (n, True) \<and> fs v = fs w) \<or>
         (\<exists>bs p. fs w n = Some bs \<and> entries7z w bs = [p] \<and>
            r = Inr (readClose (EntryReader n p) (un7Zip_close (readClose (OsFile f) c) n)) \<and>
            files w' f = Some (n, True) \<and> fs w' = fs w \<and>
            trace w' = trace w @ [EvClose f, EvList7z n, EvExtract7z n p])"
proof -
  define w1 where "w1 = snd (File_Close f w)"
  have w1: "fs w1 = fs w" "entries7z w1 = entries7z w" "files w1 f = Some (n, True)"
    "trace w1 = trace w @ [EvClose f]"
    by (simp_all add: w1_def File_Close_self [OF f])
  obtain a w2 where l: "lzmadec_NewArchive n w1 = (a, w2)" by (metis prod.exhaust)
  have w2: "fs w2 = fs w" "files w2 f = Some (n, True)" "trace w2 = trace w @ [EvClose f, EvList7z n]"
    using lzmadec_world [OF l] w1 by simp_all
  show ?thesis
  proof (cases a)
    case (Inl e)
    with u l have "r = Inl (Wrap e (lzmadecErr2Meaning (Some e) @ '' while listing content of file '' @ n))"
      "w' = snd (c w2)"
      by (auto simp: un7Zip_def filename_spool [OF f] w1_def [symmetric] un7Zip_fail_def)
    with w2 show ?thesis by blast
  next
    case (Inr ar)
    from l Inr obtain bs where ar: "fs w n = Some bs" "ar = \<lparr>Path = n, Entries = entries7z w bs\<rparr>"
      using w1
      by (auto simp: lzmadec_NewArchive_def sys_def split: option.splits prod.splits)
    show ?thesis
    proof (cases "length (Entries ar) = 1")
      case False
      with u l Inr have "\<exists>e. r = Inl e" "w' = snd (c w2)"
        by (auto simp: un7Zip_def filename_spool [OF f] w1_def [symmetric] un7Zip_fail_def)
      with w2 show ?thesis by blast
    next
      case True
      then obtain p where p: "entries7z w bs = [p]"
        using ar by (cases "entries7z w bs") auto
      obtain g w3 where g: "GetFileReader ar p w2 = (g, w3)" by (metis prod.exhaust)
      have w3: "fs w3 = fs w" "files w3 f = Some (n, True)"
        "trace w3 = trace w @ [EvClose f, EvList7z n, EvExtract7z n p]"
        using GetFileReader_world [OF g] w2 ar by simp_all
      show ?thesis
      proof (cases g)
        case (Inl e)
        with u l \<open>a = Inr ar\<close> True g p ar have "\<exists>e. r = Inl e" "w' = snd (c w3)"
          by (auto simp: un7Zip_def filename_spool [OF f] w1_def [symmetric] un7Zip_fail_def)
        with w3 show ?thesis by blast
      next
        case (Inr rd)
        with g ar have "rd = EntryReader n p"
          by (auto simp: GetFileReader_def split: option.splits prod.splits)
        with u l \<open>a = Inr ar\<close> True g p ar Inr
        have "r = Inr (readClose (EntryReader n p) (un7Zip_close (readClose (OsFile f) c) n))"
          "w' = w3"
          by (auto simp: un7Zip_def filename_spool [OF f] w1_def [symmetric])
        with w3 ar p show ?thesis by blast
      qed
    qed
  qed
qed

lemma un7Zip_failure:
  assumes f: "files w f = Some (n, b)"
    and u: "un7Zip (readClose (OsFile f) c) w = (Inl e, w')"
  shows "\<exists>v. w' = snd (c v) \<and> files v f = Some (n, True) \<and> is_closed v f \<and> fs v = fs w"
  using un7Zip_outcome [OF f u] by (auto simp: is_closed_def)

lemma un7Zip_success:
  assumes f: "files w f = Some (n, b)"
    and u: "un7Zip (readClose (OsFile f) c) w = (Inr rc, w')"
  shows "\<exists>bs p. fs w n = Some bs \<and> entries7z w bs = [p] \<and>
            rc = readClose (EntryReader n p) (un7Zip_close (readClose (OsFile f) c) n) \<and>
            files w' f = Some (n, True) \<and> is_closed w' f \<and> fs w' = fs w \<and>
            trace w' = trace w @ [EvClose f, EvList7z n, EvExtract7z n p]"
  using un7Zip_outcome [OF f u] by (auto simp: is_closed_def)

lemma un7Zip_wrong_count:
  assumes f: "files w f = Some (n, b)" and bs: "fs w n = Some bs" "length (entries7z w bs) \<noteq> 1"
  shows "\<exists>e v. un7Zip (readClose (OsFile f) c) w = (Inl e, snd (c v)) \<and>
               files v f = Some (n, True) \<and> is_closed v f \<and> fs v = fs w"
proof -
  obtain r w' where u: "un7Zip (readClose (OsFile f) c) w = (r, w')" by (metis prod.exhaust)
  from un7Zip_outcome [OF f u] bs show ?thesis by (auto simp: u is_closed_def)
qed

lemmas prims7z = sys_def File_Name_def File_Close_def os_Remove_def fclose_def filename_def
  lzmadec_NewArchive_def GetFileReader_def un7Zip_fail_def un7Zip_def world0_def w_spool_def
  w_two_def ri0_def

lemma un7Zip_world0:
  "files (snd (un7Zip ri0 w_spool)) 2 = Some (''/tmp/dump.gz0'', True) \<and>
   faults (snd (un7Zip ri0 w_spool)) (tick (snd (un7Zip ri0 w_spool)) + 1) = None"
  by (simp add: prims7z Let_def)

lemma un7Zip_ok0:
  "fst (un7Zip ri0 w_spool) =
     Inr (readClose (EntryReader ''/tmp/dump.gz0'' ''dump.xml'') (un7Zip_close ri0 ''/tmp/dump.gz0''))"
  by (simp add: prims7z Let_def)

section \<open>Suffixes, and single iterations of the loop\<close>

lemma HasSuffix_suffix: "HasSuffix s suf \<longleftrightarrow> suffix suf s"
proof
  assume "HasSuffix s suf"
  then have "s = take (length s - length suf) s @ suf"
    by (metis HasSuffix_def append_take_drop_id)
  then show "suffix suf s" by (metis suffixI)
next
  assume "suffix suf s"
  then show "HasSuffix s suf" by (auto simp: suffix_def HasSuffix_def)
qed

lemma suffix_exclusive:
  "\<not> (suffix ''.7z'' u \<and> suffix ''.bz2'' u)" "\<not> (suffix ''.7z'' u \<and> suffix ''.gz'' u)"
  "\<not> (suffix ''.bz2'' u \<and> suffix ''.gz'' u)"
  by (auto simp: suffix_def append_eq_append_conv2 Cons_eq_append_conv append_eq_Cons_conv)

lemma store_TempFile_fault:
  assumes "faults w (tick w) = Some x"
  shows "store sha1 W ctx fi w =
           (Return (Inl (Wrap x (''Error: unable to create temporary file in '' @ tmpDir W))),
            snd (sys (EvTempFile (tmpDir W) (path_Base (URL fi))) w))"
  using assms by (simp add: store_def ioutil_TempFile_def Let_def sys_def)

lemma loop_cancel:
  assumes "store sha1 W ctx fi w = (Return (Inl e), w1)"
    and "t < Hour" "done_at ctx = Some c" "c < clock w1 + t"
  shows "stubbornStore_loop sha1 W ctx fi t res w =
           Some (Return (Inl (Wrap (cause ctx) ''Error: change in context state'')),
                 w1\<lparr>tick := tick w1 + 1, trace := trace w1 @ [EvAfter t],
                    clock := max (clock w1) c\<rparr>)"
  by (subst stubbornStore_loop.simps) (simp add: assms select_def Let_def)

lemma loop_first_ok:
  assumes "store sha1 W ctx fi w = (Return (Inr r), w1)" "t < Hour"
  shows "stubbornStore_loop sha1 W ctx fi t res w = Some (Return (Inr r), w1)"
  by (subst stubbornStore_loop.simps) (simp add: assms)



section \<open>Example runs of stubbornStore and of the iterator\<close>

lemma store_fail0:
  "store digest0 W0 ctx fi0 w_fail =
     (Return (Inl (Wrap (Sys 1) ''Error: unable to create temporary file in /tmp'')),
      snd (sys (EvTempFile ''/tmp'' ''dump.gz'') w_fail))"
  using store_TempFile_fault [of w_fail "Sys 1" digest0 W0 ctx fi0]
  by (simp add: w_fail_def world0_def W0_def fi0_def base0)

lemma clock_fail0: "clock (snd (sys (EvTempFile ''/tmp'' ''dump.gz'') w_fail)) = 0"
  by (simp add: sys_def w_fail_def world0_def)

lemma stubbornStore_cancel0:
  "stubbornStore digest0 W0 ctx_c fi0 w_fail =
     Some (Return (Inl (Wrap Canceled ''Error: change in context state'')),
           (snd (sys (EvTempFile ''/tmp'' ''dump.gz'') w_fail))
             \<lparr>tick := 2, trace := [EvTempFile ''/tmp'' ''dump.gz'', EvAfter Second],
              clock := 500000000\<rparr>)"
proof -
  have "stubbornStore digest0 W0 ctx_c fi0 w_fail =
     Some (Return (Inl (Wrap (cause ctx_c) ''Error: change in context state'')),
           (snd (sys (EvTempFile ''/tmp'' ''dump.gz'') w_fail))
             \<lparr>tick := tick (snd (sys (EvTempFile ''/tmp'' ''dump.gz'') w_fail)) + 1,
              trace := trace (snd (sys (EvTempFile ''/tmp'' ''dump.gz'') w_fail)) @ [EvAfter Second],
              clock := max (clock (snd (sys (EvTempFile ''/tmp'' ''dump.gz'') w_fail))) 500000000\<rparr>)"
    unfolding stubbornStore_def
    by (rule loop_cancel [OF store_fail0])
      (simp_all add: Hour_def Second_def ctx_c_def clock_fail0)
  then show ?thesis
    by (simp add: clock_fail0 ctx_c_def) (simp add: w_fail_def world0_def)
qed

lemma store_pair0:
  "\<exists>w1. store digest0 W0 ctx fi0 w_ok = (Return (Inr vf0), w1)"
  using store_ok0 [of ctx] by (cases "store digest0 W0 ctx fi0 w_ok") (simp add: w_ok_def)

lemma suffix_gz0: "suffix ''.gz'' (URL fi0)" "\<not> suffix ''.7z'' (URL fi0)" "\<not> suffix ''.bz2'' (URL fi0)"
  by (simp_all add: HasSuffix_suffix [symmetric] HasSuffix_def fi0_def)

lemma stubbornStore_ok0:
  "store digest0 W0 ctx fi0 w_ok = (Return (Inr vf0), w1) \<Longrightarrow>
   stubbornStore digest0 W0 ctx fi0 w_ok = Some (Return (Inr vf0), w1)"
  unfolding stubbornStore_def
  by (rule loop_first_ok) (simp_all add: Hour_def Second_def)

lemma Open_dump0: "Open W0 ''dump'' = \<lparr>ffi = [fi0], err = None\<rparr>"
  by (simp add: Open_def W0_def)

lemma open_cancel0:
  "open digest0 dec0 W0 ctx_c fi0 w_fail =
     Some (Return (Inl (Wrap Canceled ''Error: change in context state'')),
           (snd (sys (EvTempFile ''/tmp'' ''dump.gz'') w_fail))
             \<lparr>tick := 2, trace := [EvTempFile ''/tmp'' ''dump.gz'', EvAfter Second],
              clock := 500000000\<rparr>)"
  by (simp add: open_def stubbornStore_cancel0)











lemma loop_retry:
  assumes "store sha1 W ctx fi w = (Return (Inl e), w1)" "t < Hour" "\<not> fst (select ctx t w1)"
  shows "stubbornStore_loop sha1 W ctx fi t res w =
           stubbornStore_loop sha1 W ctx fi (t * 2) (Inl e) (snd (select ctx t w1))"
  by (subst stubbornStore_loop.simps) (simp add: assms split_def)

section \<open>The iterator\<close>

lemma next_err:
  "err it = Some e \<Longrightarrow> next sha1 dec W it ctx w = Some (Return (Inl e), it, w)"
  by (simp add: next_def)

lemma next_result_err:
  "next sha1 dec W it ctx w = Some (Return (Inl e), it', w') \<Longrightarrow> err it' = Some e"
  by (auto simp: next_def split: option.splits list.splits prod.splits outcome.splits sum.splits)

lemma calls_err:
  "err it = Some e \<Longrightarrow>
   calls sha1 dec W it cs w = Some (replicate (length cs) (Return (Inl e)), it, fold snd cs w)"
  by (induction cs arbitrary: w) (auto simp: next_err)





section \<open>Claims\<close>

text \<open>
  C1. \<^verbatim>\<open>store\<close> hands back a spooled file only if the hex-encoded digest of the complete
  downloaded byte stream equals the descriptor's expected digest. When \<^verbatim>\<open>store\<close> returns a
  file, the body that the network served (consulted at the third external call of the
  attempt, after \<^verbatim>\<open>TempFile\<close> and \<^verbatim>\<open>NewRequest\<close>) ended with \<open>EOF\<close>, the temporary file on
  disk holds exactly the bytes of that body, the digest of these bytes in hexadecimal is
  \<open>SHA1 fi\<close>, and the returned handle is an open file of that name. When the digest of
  the served bytes differs from \<open>SHA1 fi\<close>, the attempt returns an error (it neither
  returns a file nor panics). After an attempt that returned an error, with a wait that
  is not cancelled, the loop of \<^verbatim>\<open>stubbornStore\<close> goes on to its next iteration, with the wait
  doubled. The statement holds for every digest function \<open>sha1\<close>.
\<close>

theorem store_checks_digest:
  "(store sha1 W ctx fi w = (Return (Inr vf), w') \<longrightarrow>
      Name vf = tmpDir W @ ''/'' @ path_Base (URL fi) @ rand w (tick w) \<and>
      fs w' (Name vf) = Some (concat (chunks (network w (tick w + 2) (URL fi)))) \<and>
      final (network w (tick w + 2) (URL fi)) = EOF \<and>
      hex (sha1 (concat (chunks (network w (tick w + 2) (URL fi))))) = SHA1 fi \<and>
      (\<exists>f. Reader vf = Some f \<and> Closer vf = Some (fclose f) \<and> files w' f = Some (Name vf, False))) \<and>
   (hex (sha1 (concat (chunks (network w (tick w + 2) (URL fi))))) \<noteq> SHA1 fi \<longrightarrow>
      (\<exists>e. fst (store sha1 W ctx fi w) = Return (Inl e))) \<and>
   (store sha1 W ctx fi w = (Return (Inl e), w1) \<and> t < Hour \<and> \<not> fst (select ctx t w1) \<longrightarrow>
      stubbornStore_loop sha1 W ctx fi t res w =
        stubbornStore_loop sha1 W ctx fi (t * 2) (Inl e) (snd (select ctx t w1)))"
proof (intro conjI impI)
  assume ne: "hex (sha1 (concat (chunks (network w (tick w + 2) (URL fi))))) \<noteq> SHA1 fi"
  obtain r w2 where st: "store sha1 W ctx fi w = (r, w2)" by (metis prod.exhaust)
  from store_not_error [OF st] ne show "\<exists>e. fst (store sha1 W ctx fi w) = Return (Inl e)"
    by (auto simp: st)
next
  assume "store sha1 W ctx fi w = (Return (Inl e), w1) \<and> t < Hour \<and> \<not> fst (select ctx t w1)"
  then show "stubbornStore_loop sha1 W ctx fi t res w =
        stubbornStore_loop sha1 W ctx fi (t * 2) (Inl e) (snd (select ctx t w1))"
    by (intro loop_retry) simp_all
qed (use store_ok in blast)+

theorem store_checks_digest_witness:
  "store digest0 W0 ctx0 fi0 w_ok = (Return (Inr vf0), snd (store digest0 W0 ctx0 fi0 w_ok)) \<and>
   fs (snd (store digest0 W0 ctx0 fi0 w_ok)) ''/tmp/dump.gz0'' = Some [] \<and>
   hex (digest0 []) = SHA1 fi0 \<and>
   hex (digest0 []) \<noteq> SHA1 fi_bad \<and>
   (\<exists>e. fst (store digest0 W0 ctx0 fi_bad w_ok) = Return (Inl e)) \<and>
   store digest0 W0 ctx0 fi0 w_fail =
     (Return (Inl (Wrap (Sys 1) ''Error: unable to create temporary file in /tmp'')),
      snd (sys (EvTempFile ''/tmp'' ''dump.gz'') w_fail)) \<and>
   Second < Hour \<and>
   \<not> fst (select ctx0 Second (snd (sys (EvTempFile ''/tmp'' ''dump.gz'') w_fail))) \<and>
   stubbornStore_loop digest0 W0 ctx0 fi0 Second (Inr zero_virtualFile) w_fail =
     stubbornStore_loop digest0 W0 ctx0 fi0 (Second * 2)
       (Inl (Wrap (Sys 1) ''Error: unable to create temporary file in /tmp''))
       (snd (select ctx0 Second (snd (sys (EvTempFile ''/tmp'' ''dump.gz'') w_fail))))"
proof -
  have h: "store digest0 W0 ctx0 fi0 w_ok = (Return (Inr vf0), snd (store digest0 W0 ctx0 fi0 w_ok))"
    by (simp add: prod_eq_iff store_ok0 w_ok_def)
  have ne: "hex (digest0 []) \<noteq> SHA1 fi_bad"
    by (simp add: hex_digest0 fi_bad_def)
  have w: "rand w_ok n = ''0''" "network w_ok n u = \<lparr>chunks = [], final = EOF\<rparr>" for n u
    by (simp_all add: w_ok_def world0_def)
  note t1 = store_checks_digest [of digest0 W0 ctx0 fi0 w_ok vf0 "snd (store digest0 W0 ctx0 fi0 w_ok)"]
  from t1 h have "Name vf0 = tmpDir W0 @ ''/'' @ path_Base (URL fi0) @ rand w_ok (tick w_ok) \<and>
      fs (snd (store digest0 W0 ctx0 fi0 w_ok)) (Name vf0) =
        Some (concat (chunks (network w_ok (tick w_ok + 2) (URL fi0)))) \<and>
      final (network w_ok (tick w_ok + 2) (URL fi0)) = EOF \<and>
      hex (digest0 (concat (chunks (network w_ok (tick w_ok + 2) (URL fi0))))) = SHA1 fi0"
    by blast
  then have a1: "fs (snd (store digest0 W0 ctx0 fi0 w_ok)) ''/tmp/dump.gz0'' = Some []"
    and a2: "hex (digest0 []) = SHA1 fi0"
    by (simp_all add: w vf0_def W0_def fi0_def base0)
  note t2 = store_checks_digest [of digest0 W0 ctx0 fi_bad w_ok]
  from t2 have "hex (digest0 (concat (chunks (network w_ok (tick w_ok + 2) (URL fi_bad))))) \<noteq> SHA1 fi_bad \<longrightarrow>
      (\<exists>e. fst (store digest0 W0 ctx0 fi_bad w_ok) = Return (Inl e))"
    by blast
  with ne have b: "\<exists>e. fst (store digest0 W0 ctx0 fi_bad w_ok) = Return (Inl e)"
    by (simp add: w)
  have c1: "Second < Hour" by (simp add: Hour_def Second_def)
  have c2: "\<not> fst (select ctx0 Second (snd (sys (EvTempFile ''/tmp'' ''dump.gz'') w_fail)))"
    by (simp add: select_never ctx0_def)
  note t3 = store_checks_digest [of digest0 W0 ctx0 fi0 w_fail _ _
      "Wrap (Sys 1) ''Error: unable to create temporary file in /tmp''"
      "snd (sys (EvTempFile ''/tmp'' ''dump.gz'') w_fail)" Second "Inr zero_virtualFile"]
  from t3 store_fail0 [of ctx0] c1 c2
  have c3: "stubbornStore_loop digest0 W0 ctx0 fi0 Second (Inr zero_virtualFile) w_fail =
     stubbornStore_loop digest0 W0 ctx0 fi0 (Second * 2)
       (Inl (Wrap (Sys 1) ''Error: unable to create temporary file in /tmp''))
       (snd (select ctx0 Second (snd (sys (EvTempFile ''/tmp'' ''dump.gz'') w_fail))))"
    by blast
  show ?thesis
    by (intro conjI) (fact h a1 a2 ne b store_fail0 c1 c2 c3)+
qed

text \<open>
  C2. The claim is that every failure of \<^verbatim>\<open>store\<close> after the temporary file exists closes
  and removes that file and returns the error. On the path of a failed read-only reopen
  the code does not: the failed \<^verbatim>\<open>os.Open\<close> has stored nil in \<^verbatim>\<open>tempFile\<close>, and the argument
  \<^verbatim>\<open>tempFile.Name()\<close> of \<^verbatim>\<open>fail\<close> dereferences it before \<^verbatim>\<open>fail\<close> runs. In the world \<open>w_reopen\<close>,
  where the download and the digest are good and only that \<^verbatim>\<open>os.Open\<close> fails, \<^verbatim>\<open>store\<close>
  panics, no removal is ever requested and the temporary file stays on disk. On the
  sibling path of a digest mismatch (in \<open>w_ok\<close>, with the descriptor \<open>fi_bad\<close>) the error
  is returned, the removal is requested and the file is gone.
\<close>

theorem store_reopen_failure_panics:
  "fst (store digest0 W0 ctx0 fi0 w_reopen) = Panic \<and>
   fs (snd (store digest0 W0 ctx0 fi0 w_reopen)) ''/tmp/dump.gz0'' = Some [] \<and>
   EvRemove ''/tmp/dump.gz0'' \<notin> set (trace (snd (store digest0 W0 ctx0 fi0 w_reopen))) \<and>
   fst (store digest0 W0 ctx0 fi_bad w_ok) =
     Return (Inl (New (''Error: mismatched SHA1 for the file downloaded from the following url: ''
                       @ ''http://example.org/dump.gz''))) \<and>
   fs (snd (store digest0 W0 ctx0 fi_bad w_ok)) ''/tmp/dump.gz0'' = None \<and>
   EvRemove ''/tmp/dump.gz0'' \<in> set (trace (snd (store digest0 W0 ctx0 fi_bad w_ok)))"
  by (simp add: prims hex_digest0 base0 fi0_def fi_bad_def W0_def world0_def w_reopen_def w_ok_def
        Let_def)




text \<open>
  C4. Once a call of the iterator returns an error (\<open>EOF\<close> or any other), every later call,
  with any context and in any world, returns that same error, leaves the iterator as it
  is and does not touch the world: nothing is fetched. This holds for a single later
  call and for any sequence of later calls, whatever the caller does in between. For a
  filename that is absent from the catalog the iterator returns the error
  \<open>name not found\<close> on every call, the first included.
\<close>

theorem iterator_error_sticky:
  "(next sha1 dec W it ctx w = Some (Return (Inl e), it', w') \<longrightarrow>
      (\<forall>ctx' w''. next sha1 dec W it' ctx' w'' = Some (Return (Inl e), it', w'')) \<and>
      (\<forall>cs w''. calls sha1 dec W it' cs w'' =
           Some (replicate (length cs) (Return (Inl e)), it', fold snd cs w''))) \<and>
   (file2Info W name = None \<longrightarrow>
      (\<forall>ctx w. next sha1 dec W (Open W name) ctx w =
           Some (Return (Inl (New (name @ '' not found''))), Open W name, w)))"
  by (auto simp: next_err calls_err Open_def dest: next_result_err)

theorem iterator_error_sticky_witness:
  "next digest0 dec0 W0 (Open W0 ''dump'') ctx_c w_fail =
     Some (Return (Inl (Wrap Canceled ''Error: change in context state'')),
           \<lparr>ffi = [], err = Some (Wrap Canceled ''Error: change in context state'')\<rparr>,
           (snd (sys (EvTempFile ''/tmp'' ''dump.gz'') w_fail))
             \<lparr>tick := 2, trace := [EvTempFile ''/tmp'' ''dump.gz'', EvAfter Second],
              clock := 500000000\<rparr>) \<and>
   next digest0 dec0 W0 \<lparr>ffi = [], err = Some (Wrap Canceled ''Error: change in context state'')\<rparr>
       ctx0 w_ok =
     Some (Return (Inl (Wrap Canceled ''Error: change in context state'')),
           \<lparr>ffi = [], err = Some (Wrap Canceled ''Error: change in context state'')\<rparr>, w_ok) \<and>
   calls digest0 dec0 W0 \<lparr>ffi = [], err = Some (Wrap Canceled ''Error: change in context state'')\<rparr>
       [(ctx0, id), (ctx0, id)] w_ok =
     Some ([Return (Inl (Wrap Canceled ''Error: change in context state'')),
            Return (Inl (Wrap Canceled ''Error: change in context state''))],
           \<lparr>ffi = [], err = Some (Wrap Canceled ''Error: change in context state'')\<rparr>, w_ok) \<and>
   file2Info W0 ''missing'' = None \<and>
   next digest0 dec0 W0 (Open W0 ''missing'') ctx0 w_ok =
     Some (Return (Inl (New ''missing not found'')), Open W0 ''missing'', w_ok)"
proof -
  have n: "next digest0 dec0 W0 (Open W0 ''dump'') ctx_c w_fail =
     Some (Return (Inl (Wrap Canceled ''Error: change in context state'')),
           \<lparr>ffi = [], err = Some (Wrap Canceled ''Error: change in context state'')\<rparr>,
           (snd (sys (EvTempFile ''/tmp'' ''dump.gz'') w_fail))
             \<lparr>tick := 2, trace := [EvTempFile ''/tmp'' ''dump.gz'', EvAfter Second],
              clock := 500000000\<rparr>)"
    by (simp add: next_def Open_dump0 open_cancel0)
  have m: "file2Info W0 ''missing'' = None" by (simp add: W0_def)
  note t = iterator_error_sticky [of digest0 dec0 W0 "Open W0 ''dump''" ctx_c w_fail
      "Wrap Canceled ''Error: change in context state''"
      "\<lparr>ffi = [], err = Some (Wrap Canceled ''Error: change in context state'')\<rparr>" _ "''missing''"]
  from t n have a: "next digest0 dec0 W0
       \<lparr>ffi = [], err = Some (Wrap Canceled ''Error: change in context state'')\<rparr> ctx0 w_ok =
     Some (Return (Inl (Wrap Canceled ''Error: change in context state'')),
           \<lparr>ffi = [], err = Some (Wrap Canceled ''Error: change in context state'')\<rparr>, w_ok)"
    by blast
  from t n have "calls digest0 dec0 W0
       \<lparr>ffi = [], err = Some (Wrap Canceled ''Error: change in context state'')\<rparr>
       [(ctx0, id), (ctx0, id)] w_ok =
     Some (replicate (length [(ctx0, id :: world \<Rightarrow> world), (ctx0, id)])
             (Return (Inl (Wrap Canceled ''Error: change in context state''))),
           \<lparr>ffi = [], err = Some (Wrap Canceled ''Error: change in context state'')\<rparr>,
           fold snd [(ctx0, id), (ctx0, id)] w_ok)"
    by blast
  then have b: "calls digest0 dec0 W0
       \<lparr>ffi = [], err = Some (Wrap Canceled ''Error: change in context state'')\<rparr>
       [(ctx0, id), (ctx0, id)] w_ok =
     Some ([Return (Inl (Wrap Canceled ''Error: change in context state'')),
            Return (Inl (Wrap Canceled ''Error: change in context state''))],
           \<lparr>ffi = [], err = Some (Wrap Canceled ''Error: change in context state'')\<rparr>, w_ok)"
    by (simp add: numeral_2_eq_2)
  from t m have c: "next digest0 dec0 W0 (Open W0 ''missing'') ctx0 w_ok =
     Some (Return (Inl (New ''missing not found'')), Open W0 ''missing'', w_ok)"
    by simp
  show ?thesis
    by (intro conjI) (fact n a b m c)+
qed

text \<open>
  C5. After \<^verbatim>\<open>stubbornStore\<close> has returned a spooled file, \<^verbatim>\<open>open\<close> chooses by the suffix of
  the URL alone: the 7z reader for \<^verbatim>\<open>.7z\<close>, the bzip2 decoder for \<^verbatim>\<open>.bz2\<close>, the gzip decoder
  for \<^verbatim>\<open>.gz\<close>, and the spooled file unchanged otherwise. The three suffixes exclude each
  other, so the order of the tests does not matter (second equation). The decoders are
  the parameter \<open>dec\<close>.
\<close>

theorem open_by_suffix:
  assumes "stubbornStore sha1 W ctx fi w = Some (Return (Inr r), w1)"
  shows "open sha1 dec W ctx fi w =
           Some (if suffix ''.7z'' (URL fi) then dec7Zip dec r w1
                 else if suffix ''.bz2'' (URL fi) then decBZip2 dec r w1
                 else if suffix ''.gz'' (URL fi) then decGZip dec r w1
                 else (Return (Inr r), w1)) \<and>
         open sha1 dec W ctx fi w =
           Some (if suffix ''.gz'' (URL fi) then decGZip dec r w1
                 else if suffix ''.bz2'' (URL fi) then decBZip2 dec r w1
                 else if suffix ''.7z'' (URL fi) then dec7Zip dec r w1
                 else (Return (Inr r), w1))"
  using suffix_exclusive [of "URL fi"]
  by (auto simp: open_def assms HasSuffix_suffix)

theorem open_by_suffix_witness:
  "\<exists>w1. stubbornStore digest0 W0 ctx0 fi0 w_ok = Some (Return (Inr vf0), w1) \<and>
         suffix ''.gz'' (URL fi0) \<and>
         open digest0 dec0 W0 ctx0 fi0 w_ok =
           Some (Return (Inr (vf0\<lparr>Name := ''gz:/tmp/dump.gz0''\<rparr>)), w1)"
proof -
  from store_pair0 obtain w1 where s: "store digest0 W0 ctx0 fi0 w_ok = (Return (Inr vf0), w1)"
    by blast
  note ss = stubbornStore_ok0 [OF s]
  from open_by_suffix [OF ss, of dec0] suffix_gz0
  have "open digest0 dec0 W0 ctx0 fi0 w_ok =
           Some (Return (Inr (vf0\<lparr>Name := ''gz:/tmp/dump.gz0''\<rparr>)), w1)"
    by (simp add: dec0_def mark_def vf0_def)
  with ss suffix_gz0(1) show ?thesis by blast
qed

text \<open>
  C6. \<^verbatim>\<open>un7Zip\<close> on a spool handle, that is a \<^verbatim>\<open>readClose\<close> over the \<^verbatim>\<open>*os.File\<close> \<open>f\<close> of name
  \<open>n\<close> with any \<^verbatim>\<open>Closer\<close> \<open>c\<close>: \<^verbatim>\<open>filename\<close> recovers the path \<open>n\<close> and closes \<open>f\<close>. Every
  failure of \<^verbatim>\<open>un7Zip\<close> ends with the input's \<^verbatim>\<open>Close\<close>, run in a world in which \<open>f\<close> is
  closed already and the disk is as before; whenever the archive on disk lists a number
  of entries other than one, \<^verbatim>\<open>un7Zip\<close> fails in this way. When \<^verbatim>\<open>un7Zip\<close> succeeds, the
  archive has exactly one entry, the result reads that entry, and in the world it
  leaves \<open>f\<close> is closed, the disk is as before, and the calls made were the Close of \<open>f\<close>,
  the listing and the extraction. \<^verbatim>\<open>Close\<close> of the result calls the input's \<^verbatim>\<open>Close\<close> and
  then \<^verbatim>\<open>os.Remove\<close> on the path, returning the first error. With the \<^verbatim>\<open>Closer\<close> that
  \<^verbatim>\<open>store\<close> builds (\<open>fclose f\<close>), after that \<^verbatim>\<open>Close\<close> the handle is closed, the trace shows
  the Close and the removals, and the file is gone from disk unless the system refuses
  both removals.
\<close>

theorem un7Zip_spool_handle:
  assumes "files w f = Some (n, b)"
  shows
   "filename (readClose (OsFile f) c) w = (Inr n, snd (File_Close f w)) \<and>
    is_closed (snd (filename (readClose (OsFile f) c) w)) f \<and>
    (\<forall>e w'. un7Zip (readClose (OsFile f) c) w = (Inl e, w') \<longrightarrow>
       (\<exists>v. w' = snd (c v) \<and> files v f = Some (n, True) \<and> is_closed v f \<and> fs v = fs w)) \<and>
    (\<forall>bs. fs w n = Some bs \<and> length (entries7z w bs) \<noteq> 1 \<longrightarrow>
       (\<exists>e v. un7Zip (readClose (OsFile f) c) w = (Inl e, snd (c v)) \<and>
              files v f = Some (n, True) \<and> is_closed v f \<and> fs v = fs w)) \<and>
    (\<forall>rc w'. un7Zip (readClose (OsFile f) c) w = (Inr rc, w') \<longrightarrow>
       (\<exists>bs p. fs w n = Some bs \<and> entries7z w bs = [p] \<and>
          rc = readClose (EntryReader n p) (un7Zip_close (readClose (OsFile f) c) n) \<and>
          files w' f = Some (n, True) \<and> is_closed w' f \<and> fs w' = fs w \<and>
          trace w' = trace w @ [EvClose f, EvList7z n, EvExtract7z n p])) \<and>
    (\<forall>r v. fst (Close (readClose r (un7Zip_close (readClose (OsFile f) c) n)) v) =
              (if fst (c v) \<noteq> None then fst (c v) else fst (os_Remove n (snd (c v)))) \<and>
            snd (Close (readClose r (un7Zip_close (readClose (OsFile f) c) n)) v) =
              snd (os_Remove n (snd (c v)))) \<and>
    (c = fclose f \<longrightarrow>
       (\<forall>r v b'. files v f = Some (n, b') \<longrightarrow>
          is_closed (snd (Close (readClose r (un7Zip_close (readClose (OsFile f) c) n)) v)) f \<and>
          trace (snd (Close (readClose r (un7Zip_close (readClose (OsFile f) c) n)) v)) =
            trace v @ [EvClose f, EvRemove n, EvRemove n] \<and>
          (faults v (tick v + 1) = None \<or> faults v (tick v + 2) = None \<longrightarrow>
             fs (snd (Close (readClose r (un7Zip_close (readClose (OsFile f) c) n)) v)) n = None)))"
proof -
  have c1: "filename (readClose (OsFile f) c) w = (Inr n, snd (File_Close f w))"
    by (rule filename_spool [OF assms])
  have c2: "is_closed (snd (filename (readClose (OsFile f) c) w)) f"
    by (simp add: c1 File_Close_closed [OF assms])
  have c3: "\<forall>e w'. un7Zip (readClose (OsFile f) c) w = (Inl e, w') \<longrightarrow>
       (\<exists>v. w' = snd (c v) \<and> files v f = Some (n, True) \<and> is_closed v f \<and> fs v = fs w)"
    by (intro allI impI) (rule un7Zip_failure [OF assms])
  have c4: "\<forall>bs. fs w n = Some bs \<and> length (entries7z w bs) \<noteq> 1 \<longrightarrow>
       (\<exists>e v. un7Zip (readClose (OsFile f) c) w = (Inl e, snd (c v)) \<and>
              files v f = Some (n, True) \<and> is_closed v f \<and> fs v = fs w)"
    by (intro allI impI, elim conjE) (rule un7Zip_wrong_count [OF assms])
  have c5: "\<forall>rc w'. un7Zip (readClose (OsFile f) c) w = (Inr rc, w') \<longrightarrow>
       (\<exists>bs p. fs w n = Some bs \<and> entries7z w bs = [p] \<and>
          rc = readClose (EntryReader n p) (un7Zip_close (readClose (OsFile f) c) n) \<and>
          files w' f = Some (n, True) \<and> is_closed w' f \<and> fs w' = fs w \<and>
          trace w' = trace w @ [EvClose f, EvList7z n, EvExtract7z n p])"
    by (intro allI impI) (rule un7Zip_success [OF assms])
  have c6: "\<forall>r v. fst (Close (readClose r (un7Zip_close (readClose (OsFile f) c) n)) v) =
              (if fst (c v) \<noteq> None then fst (c v) else fst (os_Remove n (snd (c v)))) \<and>
            snd (Close (readClose r (un7Zip_close (readClose (OsFile f) c) n)) v) =
              snd (os_Remove n (snd (c v)))"
    by (simp add: un7Zip_close_eq)
  have c7: "c = fclose f \<longrightarrow>
       (\<forall>r v b'. files v f = Some (n, b') \<longrightarrow>
          is_closed (snd (Close (readClose r (un7Zip_close (readClose (OsFile f) c) n)) v)) f \<and>
          trace (snd (Close (readClose r (un7Zip_close (readClose (OsFile f) c) n)) v)) =
            trace v @ [EvClose f, EvRemove n, EvRemove n] \<and>
          (faults v (tick v + 1) = None \<or> faults v (tick v + 2) = None \<longrightarrow>
             fs (snd (Close (readClose r (un7Zip_close (readClose (OsFile f) c) n)) v)) n = None))"
  proof (intro conjI allI impI)
    fix r b' and v :: world assume c: "c = fclose f" and v: "files v f = Some (n, b')"
    note fc = fclose_spool [OF v]
    have s: "snd (un7Zip_close (readClose (OsFile f) c) n v) =
               snd (os_Remove n (snd (fclose f v)))"
      by (simp add: un7Zip_close_eq c)
    show "is_closed (snd (Close (readClose r (un7Zip_close (readClose (OsFile f) c) n)) v)) f"
      using fc by (simp add: s os_Remove_closed)
    show "trace (snd (Close (readClose r (un7Zip_close (readClose (OsFile f) c) n)) v)) =
              trace v @ [EvClose f, EvRemove n, EvRemove n]"
      using fc by (simp add: s)
    assume "faults v (tick v + 1) = None \<or> faults v (tick v + 2) = None"
    then show "fs (snd (Close (readClose r (un7Zip_close (readClose (OsFile f) c) n)) v)) n = None"
    proof
      assume "faults v (tick v + 1) = None"
      with fc show ?thesis by (simp add: s os_Remove_stays_gone)
    next
      assume "faults v (tick v + 2) = None"
      with fc show ?thesis by (simp add: s os_Remove_gone)
    qed
  qed
  show ?thesis
    by (intro conjI) (fact c1 c2 c3 c4 c5 c6 c7)+
qed

theorem un7Zip_spool_handle_witness:
  "files w_spool 2 = Some (''/tmp/dump.gz0'', False) \<and>
   filename ri0 w_spool = (Inr ''/tmp/dump.gz0'', snd (File_Close 2 w_spool)) \<and>
   is_closed (snd (filename ri0 w_spool)) 2 \<and>
   files w_two 2 = Some (''/tmp/dump.gz0'', False) \<and>
   fs w_two ''/tmp/dump.gz0'' = Some [] \<and> length (entries7z w_two []) \<noteq> 1 \<and>
   (\<exists>e v. un7Zip ri0 w_two = (Inl e, snd (fclose 2 v)) \<and>
          files v 2 = Some (''/tmp/dump.gz0'', True) \<and> is_closed v 2 \<and> fs v = fs w_two) \<and>
   un7Zip ri0 w_spool =
     (Inr (readClose (EntryReader ''/tmp/dump.gz0'' ''dump.xml'') (un7Zip_close ri0 ''/tmp/dump.gz0'')),
      snd (un7Zip ri0 w_spool)) \<and>
   is_closed (snd (un7Zip ri0 w_spool)) 2 \<and>
   fs (snd (un7Zip ri0 w_spool)) = fs w_spool \<and>
   trace (snd (un7Zip ri0 w_spool)) =
     [EvClose 2, EvList7z ''/tmp/dump.gz0'', EvExtract7z ''/tmp/dump.gz0'' ''dump.xml''] \<and>
   files (snd (un7Zip ri0 w_spool)) 2 = Some (''/tmp/dump.gz0'', True) \<and>
   is_closed (snd (Close (readClose (EntryReader ''/tmp/dump.gz0'' ''dump.xml'')
                            (un7Zip_close ri0 ''/tmp/dump.gz0'')) (snd (un7Zip ri0 w_spool)))) 2 \<and>
   fs (snd (Close (readClose (EntryReader ''/tmp/dump.gz0'' ''dump.xml'')
                     (un7Zip_close ri0 ''/tmp/dump.gz0'')) (snd (un7Zip ri0 w_spool))))
      ''/tmp/dump.gz0'' = None"
proof -
  have f1: "files w_spool 2 = Some (''/tmp/dump.gz0'', False)"
    and tr: "trace w_spool = []" and en: "entries7z w_spool bs = [''dump.xml'']" for bs
    by (simp_all add: w_spool_def world0_def)
  have f2: "files w_two 2 = Some (''/tmp/dump.gz0'', False)"
    and f3: "fs w_two ''/tmp/dump.gz0'' = Some []"
    and f4: "length (entries7z w_two []) \<noteq> 1"
    by (simp_all add: w_two_def w_spool_def world0_def)
  have u: "un7Zip ri0 w_spool =
     (Inr (readClose (EntryReader ''/tmp/dump.gz0'' ''dump.xml'') (un7Zip_close ri0 ''/tmp/dump.gz0'')),
      snd (un7Zip ri0 w_spool))"
    by (simp add: prod_eq_iff un7Zip_ok0)
  from un7Zip_world0 have v2:
    "faults (snd (un7Zip ri0 w_spool)) (tick (snd (un7Zip ri0 w_spool)) + 1) = None"
    by blast
  note a = un7Zip_spool_handle [OF f1, of "fclose 2", folded ri0_def]
  note b = un7Zip_spool_handle [OF f2, of "fclose 2", folded ri0_def]
  note a1 = a [THEN conjunct1]
  note a2 = a [THEN conjunct2, THEN conjunct1]
  note b4 = b [THEN conjunct2, THEN conjunct2, THEN conjunct2, THEN conjunct1, rule_format,
      of "[]"]
  from b4 f3 f4 have b1: "\<exists>e v. un7Zip ri0 w_two = (Inl e, snd (fclose 2 v)) \<and>
          files v 2 = Some (''/tmp/dump.gz0'', True) \<and> is_closed v 2 \<and> fs v = fs w_two"
    by blast
  note a5 = a [THEN conjunct2, THEN conjunct2, THEN conjunct2, THEN conjunct2, THEN conjunct1,
      rule_format, OF u]
  from a5 obtain bs p where p: "entries7z w_spool bs = [p]"
    and s1: "files (snd (un7Zip ri0 w_spool)) 2 = Some (''/tmp/dump.gz0'', True)"
    and s2: "is_closed (snd (un7Zip ri0 w_spool)) 2"
    and s3: "fs (snd (un7Zip ri0 w_spool)) = fs w_spool"
    and s4: "trace (snd (un7Zip ri0 w_spool)) =
        trace w_spool @ [EvClose 2, EvList7z ''/tmp/dump.gz0'', EvExtract7z ''/tmp/dump.gz0'' p]"
    by (elim exE conjE)
  from p en have "p = ''dump.xml''" by simp
  with s4 tr have s4': "trace (snd (un7Zip ri0 w_spool)) =
     [EvClose 2, EvList7z ''/tmp/dump.gz0'', EvExtract7z ''/tmp/dump.gz0'' ''dump.xml'']"
    by simp
  note a7 = a [THEN conjunct2, THEN conjunct2, THEN conjunct2, THEN conjunct2, THEN conjunct2,
      THEN conjunct2, rule_format, OF refl s1,
      of "EntryReader ''/tmp/dump.gz0'' ''dump.xml''"]
  from a7 have a3:
    "is_closed (snd (Close (readClose (EntryReader ''/tmp/dump.gz0'' ''dump.xml'')
                            (un7Zip_close ri0 ''/tmp/dump.gz0'')) (snd (un7Zip ri0 w_spool)))) 2"
    by (elim conjE)
  from a7 v2 have a4:
    "fs (snd (Close (readClose (EntryReader ''/tmp/dump.gz0'' ''dump.xml'')
                     (un7Zip_close ri0 ''/tmp/dump.gz0'')) (snd (un7Zip ri0 w_spool))))
      ''/tmp/dump.gz0'' = None"
    by (elim conjE) (erule impE, rule disjI1, assumption+)
  show ?thesis
    by (intro conjI) (fact f1 a1 a2 f2 f3 f4 b1 u s2 s3 s4' s1 a3 a4)+
qed






text \<open>
  C9. The stream that \<^verbatim>\<open>unGZip\<close> returns is a \<^verbatim>\<open>readClose\<close> over the gzip decoder. Its
  \<^verbatim>\<open>Close\<close> closes the decoder and then, whatever the decoder answered, the underlying
  handle; it returns the decoder's error when that is non-nil and the underlying
  handle's error otherwise. For the spool handle that \<^verbatim>\<open>store\<close> builds, the file is closed
  afterwards and the trace shows the decoder's Close, the file's Close and the removal.
\<close>

theorem unGZip_close_both:
  assumes "unGZip ri w = (Inr rc, w1)"
  shows
   "rc = readClose (GzipReader ri) (unGZip_close (GzipReader ri) ri) \<and>
    (\<forall>v. fst (Close rc v) =
            (if fst (gzip_Close v) \<noteq> None then fst (gzip_Close v)
             else fst (Close ri (snd (gzip_Close v)))) \<and>
          snd (Close rc v) = snd (Close ri (snd (gzip_Close v))) \<and>
          trace (snd (gzip_Close v)) = trace v @ [EvGzipClose]) \<and>
    (\<forall>f n b v. ri = readClose (OsFile f) (fclose f) \<and> files v f = Some (n, b) \<longrightarrow>
       is_closed (snd (Close rc v)) f \<and>
       trace (snd (Close rc v)) = trace v @ [EvGzipClose, EvClose f, EvRemove n])"
proof -
  have rc: "rc = readClose (GzipReader ri) (unGZip_close (GzipReader ri) ri)"
    using assms by (auto simp: unGZip_def gzip_NewReader_def split: prod.splits option.splits)
  have gen: "fst (Close rc v) =
            (if fst (gzip_Close v) \<noteq> None then fst (gzip_Close v)
             else fst (Close ri (snd (gzip_Close v)))) \<and>
          snd (Close rc v) = snd (Close ri (snd (gzip_Close v))) \<and>
          trace (snd (gzip_Close v)) = trace v @ [EvGzipClose]" for v
    by (simp add: rc unGZip_close_eq gzip_Close_def)
  have sp: "is_closed (snd (Close rc v)) f \<and>
       trace (snd (Close rc v)) = trace v @ [EvGzipClose, EvClose f, EvRemove n]"
    if "ri = readClose (OsFile f) (fclose f) \<and> files v f = Some (n, b)" for f n b v
  proof -
    from that have "files (snd (gzip_Close v)) f = Some (n, b)" by (simp add: gzip_Close_def)
    from fclose_spool [OF this] that gen [of v] show ?thesis by (simp add: gzip_Close_def)
  qed
  from rc gen sp show ?thesis by blast
qed

theorem unGZip_close_both_witness:
  "unGZip ri0 w_spool =
     (Inr (readClose (GzipReader ri0) (unGZip_close (GzipReader ri0) ri0)), snd (unGZip ri0 w_spool)) \<and>
   files w_badgz 2 = Some (''/tmp/dump.gz0'', False) \<and>
   fst (gzip_Close w_badgz) = Some (Sys 5) \<and>
   fst (Close (readClose (GzipReader ri0) (unGZip_close (GzipReader ri0) ri0)) w_badgz) = Some (Sys 5) \<and>
   is_closed (snd (Close (readClose (GzipReader ri0) (unGZip_close (GzipReader ri0) ri0)) w_badgz)) 2 \<and>
   trace (snd (Close (readClose (GzipReader ri0) (unGZip_close (GzipReader ri0) ri0)) w_badgz)) =
     [EvGzipClose, EvClose 2, EvRemove ''/tmp/dump.gz0'']"
proof -
  have u: "unGZip ri0 w_spool =
     (Inr (readClose (GzipReader ri0) (unGZip_close (GzipReader ri0) ri0)), snd (unGZip ri0 w_spool))"
    by (simp add: unGZip_def gzip_NewReader_def sys_def w_spool_def world0_def)
  have f: "files w_badgz 2 = Some (''/tmp/dump.gz0'', False)"
    and tr: "trace w_badgz = []"
    and g: "fst (gzip_Close w_badgz) = Some (Sys 5)"
    by (simp_all add: w_badgz_def w_spool_def world0_def gzip_Close_def sys_def)
  note t = unGZip_close_both [OF u]
  from t have "fst (Close (readClose (GzipReader ri0) (unGZip_close (GzipReader ri0) ri0)) w_badgz) =
      (if fst (gzip_Close w_badgz) \<noteq> None then fst (gzip_Close w_badgz)
       else fst (Close ri0 (snd (gzip_Close w_badgz))))"
    by blast
  with g have c1:
    "fst (Close (readClose (GzipReader ri0) (unGZip_close (GzipReader ri0) ri0)) w_badgz) = Some (Sys 5)"
    by simp
  from t have "ri0 = readClose (OsFile 2) (fclose 2) \<and> files w_badgz 2 = Some (''/tmp/dump.gz0'', False) \<longrightarrow>
       is_closed (snd (Close (readClose (GzipReader ri0) (unGZip_close (GzipReader ri0) ri0)) w_badgz)) 2 \<and>
       trace (snd (Close (readClose (GzipReader ri0) (unGZip_close (GzipReader ri0) ri0)) w_badgz)) =
         trace w_badgz @ [EvGzipClose, EvClose 2, EvRemove ''/tmp/dump.gz0'']"
    by blast
  with f tr have c2:
    "is_closed (snd (Close (readClose (GzipReader ri0) (unGZip_close (GzipReader ri0) ri0)) w_badgz)) 2"
    "trace (snd (Close (readClose (GzipReader ri0) (unGZip_close (GzipReader ri0) ri0)) w_badgz)) =
       [EvGzipClose, EvClose 2, EvRemove ''/tmp/dump.gz0'']"
    by (simp_all add: ri0_def)
  show ?thesis
    by (intro conjI) (fact u f g c1 c2)+
qed

text \<open>
  C10. \<^verbatim>\<open>CheckFor\<close> returns nil exactly when every one of its argument filenames is a key
  of the catalog; otherwise the error names the first filename, in argument order, that
  is absent. \<^verbatim>\<open>CheckFor\<close> is a function of the hub and the names alone: its receiver is a
  copy that it only reads, so it has no state to modify.
\<close>

theorem CheckFor_first_absent:
  "(CheckFor W names = None \<longleftrightarrow> set names \<subseteq> dom (file2Info W)) \<and>
   (\<forall>pre f post. names = pre @ f # post \<and> set pre \<subseteq> dom (file2Info W) \<and> f \<notin> dom (file2Info W)
      \<longrightarrow> CheckFor W names = Some (New (f @ '' not found'')))"
proof (intro conjI allI impI)
  show "CheckFor W names = None \<longleftrightarrow> set names \<subseteq> dom (file2Info W)"
    by (induction names) auto
next
  fix pre f post
  assume "names = pre @ f # post \<and> set pre \<subseteq> dom (file2Info W) \<and> f \<notin> dom (file2Info W)"
  then show "CheckFor W names = Some (New (f @ '' not found''))"
    by (induction pre arbitrary: names) auto
qed

theorem CheckFor_first_absent_witness:
  "CheckFor W0 [''dump'', ''none''] = None \<and>
   set [''dump'', ''none''] \<subseteq> dom (file2Info W0) \<and>
   set [''dump''] \<subseteq> dom (file2Info W0) \<and> ''b'' \<notin> dom (file2Info W0) \<and>
   CheckFor W0 [''dump'', ''b'', ''c'', ''none''] = Some (New ''b not found'')"
  using CheckFor_first_absent [of W0 "[''dump'', ''none'']"]
    CheckFor_first_absent [of W0 "[''dump'', ''b'', ''c'', ''none'']"]
  by (simp add: W0_def)

end
